theory Spec2Isabelle
  imports Complex_Main
begin

section \<open>Nonlinear feedback analysis: a model of \<open>control/nltools.py\<close>\<close>

text \<open>
  The module computes describing functions of static nonlinearities and looks for
  limit cycles as intersections of two curves in the complex plane.

  Conventions of the model.
  \<^item> In the closed forms and in the estimator a Python float is a \<open>real\<close> and a
    Python complex a \<open>complex\<close>, with exact arithmetic; the not-a-number value is a
    constructor of its own (\<open>PyNaN\<close>) where the source returns it (\<open>np.nan\<close>).
  \<^item> Where the outcome depends on rounding, every arithmetic operation is rounded to
    the nearest double (\<open>fl\<close>): the state update of the backlash. In the
    intersection routine and the locator, where infinite and not-a-number values
    occur, the values are of the type \<open>double\<close>.
  \<^item> Every \<open>raise\<close> of the source and of the \<open>math\<close> functions it calls is an
    \<open>Inl\<close> of the result; \<open>warn(...)\<close> appends the message to a list of warnings
    that is returned with the result.
  \<^item> A mutable object is a record; a method that mutates it returns the new record.
\<close>

subsection \<open>Values and errors\<close>

datatype error =
    ValueError string
  | ZeroDivisionError
  | IndexError
  | AssertionError
  | UnboundLocalError
  | NotImplementedError string

text \<open>
  What a \<open>describing_function\<close> method returns: the int \<open>0\<close>, a float such as
  \<open>1.\<close>, \<open>np.nan\<close>, or a complex number \<open>df_real + 1j * df_imag\<close>.
\<close>

datatype pynum = PyInt int | PyFloat real | PyNaN | PyComplex complex

text \<open>An argument that is a scalar or a one-dimensional array (\<open>np.shape\<close>).\<close>

datatype 'a shaped = Scalar 'a | Array "'a list"

fun atleast_1d :: "'a shaped \<Rightarrow> 'a list" where
  "atleast_1d (Scalar v) = [v]"
| "atleast_1d (Array vs) = vs"

text \<open>
  \<open>np.array(ys).reshape(np.shape(x))\<close> for a list \<open>ys\<close> with one entry per element
  of \<open>np.atleast_1d(x)\<close>. A list of another length cannot be reshaped (numpy raises
  \<open>ValueError\<close>).
\<close>

fun reshape_like :: "'b shaped \<Rightarrow> 'a list \<Rightarrow> error + 'a shaped" where
  "reshape_like (Scalar v) [y] = Inr (Scalar y)"
| "reshape_like (Scalar v) ys = Inl (ValueError ''cannot reshape array'')"
| "reshape_like (Array vs) ys =
     (if length ys = length vs then Inr (Array ys)
      else Inl (ValueError ''cannot reshape array''))"

text \<open>Sequencing of computations that may raise.\<close>

fun bind :: "error + 'a \<Rightarrow> ('a \<Rightarrow> error + 'b) \<Rightarrow> error + 'b" where
  "bind (Inl e) f = Inl e"
| "bind (Inr v) f = f v"

text \<open>
  \<open>math.asin\<close> and \<open>math.sqrt\<close> raise \<open>ValueError\<close> outside their domain; float
  division raises \<open>ZeroDivisionError\<close> on a zero divisor (with a numpy scalar as
  divisor the quotient is infinite or not a number instead, which the model does not
  represent); \<open>math.copysign(1, x)\<close> is the sign of \<open>x\<close> as a float (\<open>1.0\<close> at
  \<open>x = 0.0\<close>).
\<close>

definition asin :: "real \<Rightarrow> error + real" where
  "asin x = (if \<bar>x\<bar> > 1 then Inl (ValueError ''math domain error'') else Inr (arcsin x))"

definition sqrt_py :: "real \<Rightarrow> error + real" where
  "sqrt_py x = (if x < 0 then Inl (ValueError ''math domain error'') else Inr (sqrt x))"

definition div_py :: "real \<Rightarrow> real \<Rightarrow> error + real" where
  "div_py x y = (if y = 0 then Inl ZeroDivisionError else Inr (x / y))"

definition copysign1 :: "real \<Rightarrow> real" where
  "copysign1 x = (if x < 0 then - 1 else 1)"

subsection \<open>Rounding to the nearest double\<close>

text \<open>
  A double has a significand of 53 bits. \<open>rne\<close> rounds a real to the nearest integer,
  a tie to the even one; \<open>ulp_exp x\<close> is the exponent of the unit in the last place
  at \<open>x\<close> (that of the subnormal numbers below \<open>2^-1022\<close>); \<open>fl x\<close> is the double
  nearest to \<open>x\<close>. Overflow to infinity (above about \<open>1.8e308\<close>) is not part of
  \<open>fl\<close>, and the two zeros are one.
\<close>

definition rne :: "real \<Rightarrow> int" where
  "rne t =
     (let f = \<lfloor>t\<rfloor>; d = t - of_int f in
      if d < 1 / 2 then f
      else if d > 1 / 2 then f + 1
      else if even f then f else f + 1)"

definition pow2 :: "int \<Rightarrow> real" where
  "pow2 e = (if 0 \<le> e then 2 ^ nat e else 1 / 2 ^ nat (- e))"

definition ulp_exp :: "real \<Rightarrow> int" where
  "ulp_exp x = max \<lfloor>log 2 \<bar>x\<bar>\<rfloor> (- 1022) - 52"

definition fl :: "real \<Rightarrow> real" where
  "fl x = (if x = 0 then 0 else of_int (rne (x / pow2 (ulp_exp x))) * pow2 (ulp_exp x))"

text \<open>Half a unit in the last place at \<open>x\<close>: the most that \<open>fl x\<close> differs from \<open>x\<close>.\<close>

definition half_ulp :: "real \<Rightarrow> real" where
  "half_ulp x = pow2 (ulp_exp x) / 2"

subsection \<open>The auxiliary function \<open>NonlinearFunction._f\<close>\<close>

text \<open>
  \<^verbatim>\<open>
  def _f(self, x):
      return math.copysign(1, x) if abs(x) > 1 else \
          (math.asin(x) + x * math.sqrt(1 - x**2)) * 2 / math.pi
  \<close>
\<close>

definition f_aux :: "real \<Rightarrow> error + real" where
  "f_aux x =
     (if \<bar>x\<bar> > 1 then Inr (copysign1 x)
      else bind (asin x) (\<lambda>as.
           bind (sqrt_py (1 - x\<^sup>2)) (\<lambda>sq.
           Inr ((as + x * sq) * 2 / pi))))"

subsection \<open>Saturation\<close>

record saturation_nonlinearity =
  lb :: real
  ub :: real

definition asymmetric_msg :: string where
  "asymmetric_msg = ''asymmetric saturation; ignoring non-zero bias term''"

text \<open>
  \<open>saturation_nonlinearity.__init__(self, ub=1, lb=None)\<close>: the object and the
  warnings emitted. The bounds are stored as they stand after the \<open>lb == None\<close> case.
\<close>

definition saturation_init :: "real \<Rightarrow> real option \<Rightarrow> saturation_nonlinearity \<times> string list" where
  "saturation_init ub0 lb0 =
     (let (l, u) = (case lb0 of None \<Rightarrow> (- \<bar>ub0\<bar>, \<bar>ub0\<bar>) | Some l0 \<Rightarrow> (l0, ub0))
      in (\<lparr>lb = l, ub = u\<rparr>,
          if l > 0 \<or> u < 0 \<or> l + u \<noteq> 0 then [asymmetric_msg] else []))"

text \<open>\<open>__call__\<close>: \<open>np.maximum(self.lb, np.minimum(x, self.ub))\<close>.\<close>

definition saturation_call :: "saturation_nonlinearity \<Rightarrow> real \<Rightarrow> real" where
  "saturation_call s x = max (lb s) (min x (ub s))"

text \<open>
  \<^verbatim>\<open>
  def describing_function(self, A):
      if self.lb <= A and A <= self.ub:
          return 1.
      else:
          alpha, beta = math.asin(self.ub/A), math.asin(-self.lb/A)
          return (math.sin(alpha + beta) * math.cos(alpha - beta) +
                  (alpha + beta)) / math.pi
  \<close>
\<close>

definition saturation_describing_function :: "saturation_nonlinearity \<Rightarrow> real \<Rightarrow> error + pynum" where
  "saturation_describing_function s A =
     (if lb s \<le> A \<and> A \<le> ub s then Inr (PyFloat 1)
      else bind (div_py (ub s) A) (\<lambda>qa.
           bind (asin qa) (\<lambda>alpha.
           bind (div_py (- lb s) A) (\<lambda>qb.
           bind (asin qb) (\<lambda>beta.
           Inr (PyFloat ((sin (alpha + beta) * cos (alpha - beta) + (alpha + beta)) / pi)))))))"

subsection \<open>Relay with hysteresis\<close>

record relay_hysteresis_nonlinearity =
  branch :: int
  relay_b :: real
  relay_c :: real

text \<open>\<open>__init__(self, b, c)\<close>: the state starts on the lower branch.\<close>

definition relay_init :: "real \<Rightarrow> real \<Rightarrow> relay_hysteresis_nonlinearity" where
  "relay_init b0 c0 = \<lparr>branch = - 1, relay_b = b0, relay_c = c0\<rparr>"

text \<open>
  \<^verbatim>\<open>
  def __call__(self, x):
      if x > self.c:
          y = self.b
          self.branch = 1
      elif x < -self.c:
          y = -self.b
          self.branch = -1
      elif self.branch == -1:
          y = -self.b
      elif self.branch == 1:
          y = self.b
      return y
  \<close>
  When no case applies, \<open>y\<close> is unbound at the \<open>return\<close>.
\<close>

definition relay_call ::
  "relay_hysteresis_nonlinearity \<Rightarrow> real \<Rightarrow> error + (real \<times> relay_hysteresis_nonlinearity)" where
  "relay_call r x =
     (if x > relay_c r then Inr (relay_b r, r\<lparr>branch := 1\<rparr>)
      else if x < - relay_c r then Inr (- relay_b r, r\<lparr>branch := - 1\<rparr>)
      else if branch r = - 1 then Inr (- relay_b r, r)
      else if branch r = 1 then Inr (relay_b r, r)
      else Inl UnboundLocalError)"

text \<open>
  \<^verbatim>\<open>
  def describing_function(self, a):
      if a < self.c:
          return np.nan
      df_real = 4 * self.b * math.sqrt(1 - (self.c/a)**2) / (a * math.pi)
      df_imag = -4 * self.b * self.c / (math.pi * a**2)
      return df_real + 1j * df_imag
  \<close>
  (The local function \<open>f\<close> that the method defines is never called.)
\<close>

definition relay_describing_function ::
  "relay_hysteresis_nonlinearity \<Rightarrow> real \<Rightarrow> error + pynum" where
  "relay_describing_function r a =
     (if a < relay_c r then Inr PyNaN
      else bind (div_py (relay_c r) a) (\<lambda>q.
           bind (sqrt_py (1 - q\<^sup>2)) (\<lambda>sq.
           bind (div_py (4 * relay_b r * sq) (a * pi)) (\<lambda>df_real.
           bind (div_py (- 4 * relay_b r * relay_c r) (pi * a\<^sup>2)) (\<lambda>df_imag.
           Inr (PyComplex (complex_of_real df_real + \<i> * complex_of_real df_imag)))))))"

subsection \<open>Backlash\<close>

record backlash_nonlinearity =
  backlash_b :: real
  center :: real

definition backlash_init :: "real \<Rightarrow> backlash_nonlinearity" where
  "backlash_init b0 = \<lparr>backlash_b = b0, center = 0\<rparr>"

text \<open>
  The body of the loop in \<open>__call__\<close>, for one sample:
  \<^verbatim>\<open>
  if x - self.center > self.b/2:
      self.center = x - self.b/2
  elif x - self.center < -self.b/2:
      self.center = x + self.b/2
  y.append(self.center)
  \<close>
  Each difference, quotient and sum is rounded to a double.
\<close>

definition backlash_step :: "backlash_nonlinearity \<Rightarrow> real \<Rightarrow> backlash_nonlinearity" where
  "backlash_step k x =
     (if fl (x - center k) > fl (backlash_b k / 2)
      then k\<lparr>center := fl (x - fl (backlash_b k / 2))\<rparr>
      else if fl (x - center k) < fl (- backlash_b k / 2)
      then k\<lparr>center := fl (x + fl (backlash_b k / 2))\<rparr>
      else k)"

text \<open>\<open>for x in np.atleast_1d(x_array)\<close>: the outputs in order, and the final state.\<close>

fun backlash_loop ::
  "backlash_nonlinearity \<Rightarrow> real list \<Rightarrow> real list \<times> backlash_nonlinearity" where
  "backlash_loop k [] = ([], k)"
| "backlash_loop k (x # xs) =
     (let k1 = backlash_step k x;
          (ys, k2) = backlash_loop k1 xs
      in (center k1 # ys, k2))"

text \<open>
  The argument of \<open>__call__\<close>: a scalar, a one-dimensional array, or a
  two-dimensional array with two or more columns (each row given by its first two
  entries and the rest).
\<close>

datatype ndarray = Dim0 real | Dim1 "real list" | Dim2 "(real \<times> real \<times> real list) list"

definition ambiguous_msg :: string where
  "ambiguous_msg = ''The truth value of an array with more than one element is ambiguous''"

text \<open>
  \<open>__call__\<close>: \<open>np.array(y).reshape(x_array.shape)\<close> and the mutated object. For a
  two-dimensional argument the loop runs over the rows, and the first comparison
  \<open>if x - self.center > self.b/2\<close> on a row of two or more entries raises
  \<open>ValueError\<close>; without rows the result is the empty array.
\<close>

fun backlash_call ::
  "backlash_nonlinearity \<Rightarrow> ndarray \<Rightarrow> error + (ndarray \<times> backlash_nonlinearity)" where
  "backlash_call k (Dim0 v) =
     (let (ys, k1) = backlash_loop k [v]
      in case ys of [y] \<Rightarrow> Inr (Dim0 y, k1)
                  | _ \<Rightarrow> Inl (ValueError ''cannot reshape array''))"
| "backlash_call k (Dim1 vs) =
     (let (ys, k1) = backlash_loop k vs
      in if length ys = length vs then Inr (Dim1 ys, k1)
         else Inl (ValueError ''cannot reshape array''))"
| "backlash_call k (Dim2 []) = Inr (Dim2 [], k)"
| "backlash_call k (Dim2 (row # rows)) = Inl (ValueError ambiguous_msg)"

text \<open>
  \<^verbatim>\<open>
  def describing_function(self, A):
      if A <= self.b/2:
          return 0
      df_real = (1 + self._f(1 - self.b/A)) / 2
      df_imag = -(2 * self.b/A - (self.b/A)**2) / math.pi
      return df_real + 1j * df_imag
  \<close>
\<close>

definition backlash_describing_function :: "backlash_nonlinearity \<Rightarrow> real \<Rightarrow> error + pynum" where
  "backlash_describing_function k A =
     (if A \<le> backlash_b k / 2 then Inr (PyInt 0)
      else bind (div_py (backlash_b k) A) (\<lambda>q.
           bind (f_aux (1 - q)) (\<lambda>fv.
           bind (div_py (2 * backlash_b k) A) (\<lambda>q2.
           Inr (PyComplex (complex_of_real ((1 + fv) / 2)
                           + \<i> * complex_of_real (- (q2 - q\<^sup>2) / pi)))))))"

subsection \<open>Nonlinearities as objects\<close>

text \<open>
  What \<open>describing_function\<close> sees of its argument \<open>fcn\<close>: a callable with a state,
  \<open>fcn(x)\<close> for a scalar \<open>x\<close> giving a scalar and the next state, and the
  \<open>describing_function\<close> method when \<open>hasattr(fcn, 'describing_function')\<close>.
\<close>

record 's nonlinearity =
  state :: 's
  call :: "'s \<Rightarrow> real \<Rightarrow> error + (real \<times> 's)"
  df_method :: "('s \<Rightarrow> real \<Rightarrow> error + pynum) option"

text \<open>A plain callable (a function or lambda) has no method.\<close>

definition generic_fcn :: "'s \<Rightarrow> ('s \<Rightarrow> real \<Rightarrow> error + (real \<times> 's)) \<Rightarrow> 's nonlinearity" where
  "generic_fcn s0 f = \<lparr>state = s0, call = f, df_method = None\<rparr>"

definition saturation_fcn :: "saturation_nonlinearity \<Rightarrow> saturation_nonlinearity nonlinearity" where
  "saturation_fcn s0 =
     \<lparr>state = s0, call = (\<lambda>s x. Inr (saturation_call s x, s)),
      df_method = Some saturation_describing_function\<rparr>"

definition relay_fcn ::
  "relay_hysteresis_nonlinearity \<Rightarrow> relay_hysteresis_nonlinearity nonlinearity" where
  "relay_fcn r0 =
     \<lparr>state = r0, call = relay_call, df_method = Some relay_describing_function\<rparr>"

text \<open>\<open>np.squeeze\<close> of the result of a call on a scalar.\<close>

fun squeeze :: "ndarray \<Rightarrow> error + real" where
  "squeeze (Dim0 v) = Inr v"
| "squeeze (Dim1 [v]) = Inr v"
| "squeeze vs = Inl (ValueError ''not a scalar'')"

definition backlash_fcn :: "backlash_nonlinearity \<Rightarrow> backlash_nonlinearity nonlinearity" where
  "backlash_fcn k0 =
     \<lparr>state = k0,
      call = (\<lambda>k x. bind (backlash_call k (Dim0 x)) (\<lambda>(y, k1).
                     bind (squeeze y) (\<lambda>v. Inr (v, k1)))),
      df_method = Some backlash_describing_function\<rparr>"

subsection \<open>The describing-function estimator\<close>

text \<open>\<open>np.linspace(start, stop, num)\<close>, end point included.\<close>

definition linspace :: "real \<Rightarrow> real \<Rightarrow> nat \<Rightarrow> real list" where
  "linspace start stop num =
     (if num = 1 then [start]
      else map (\<lambda>i. start + real i * ((stop - start) / real (num - 1))) [0..<num])"

text \<open>\<open>[fcn(x) for x in xs]\<close>, threading the state of \<open>fcn\<close>.\<close>

fun eval_list ::
  "('s \<Rightarrow> real \<Rightarrow> error + (real \<times> 's)) \<Rightarrow> 's \<Rightarrow> real list \<Rightarrow> error + (real list \<times> 's)" where
  "eval_list f s [] = Inr ([], s)"
| "eval_list f s (x # xs) =
     bind (f s x) (\<lambda>(y, s1).
     bind (eval_list f s1 xs) (\<lambda>(ys, s2). Inr (y # ys, s2)))"

text \<open>The analytic path: \<open>for a in np.atleast_1d(amp): df.append(fcn.describing_function(a))\<close>.\<close>

fun method_list :: "(real \<Rightarrow> error + pynum) \<Rightarrow> real list \<Rightarrow> error + pynum list" where
  "method_list m [] = Inr []"
| "method_list m (a # as) =
     bind (m a) (\<lambda>d.
     bind (method_list m as) (\<lambda>ds. Inr (d # ds)))"

text \<open>\<open>u @ v\<close> for two one-dimensional arrays, and \<open>np.atleast_1d(amp).min()\<close>.\<close>

definition dot :: "real list \<Rightarrow> real list \<Rightarrow> real" where
  "dot u v = sum_list (map2 (*) u v)"

fun amin :: "real list \<Rightarrow> error + real" where
  "amin [] = Inl (ValueError ''zero-size array to reduction operation minimum'')"
| "amin (x # xs) = Inr (fold min xs x)"

definition zero_msg :: string where
  "zero_msg = ''function must evaluate to zero at zero''"

definition negative_msg :: string where
  "negative_msg = ''cannot evaluate describing function for amp < 0''"

text \<open>
  The numeric path, one amplitude at a time:
  \<^verbatim>\<open>
  for a in np.atleast_1d(amp):
      if a == 0:
          if zero_check and np.squeeze(fcn(0.)) != 0:
              raise ValueError("function must evaluate to zero at zero")
          df.append(1.)
          continue
      elif a < 0:
          raise ValueError("cannot evaluate describing function for amp < 0")
      scale = dtheta / np.pi / a
      fcn_eval = np.array([fcn(x) for x in a*sin_theta]).squeeze()
      df_real = (fcn_eval @ sin_theta) * scale
      df_imag = (fcn_eval @ cos_theta) * scale
      df.append(df_real + 1j * df_imag)
  \<close>
\<close>

fun numeric_loop ::
  "('s \<Rightarrow> real \<Rightarrow> error + (real \<times> 's)) \<Rightarrow> bool \<Rightarrow> real list \<Rightarrow> real list \<Rightarrow> real \<Rightarrow>
   's \<Rightarrow> real list \<Rightarrow> error + (pynum list \<times> 's)" where
  "numeric_loop f zero_check sin_theta cos_theta dtheta s [] = Inr ([], s)"
| "numeric_loop f zero_check sin_theta cos_theta dtheta s (a # as) =
     (if a = 0 then
        bind (if zero_check
              then bind (f s 0) (\<lambda>(y, s1).
                     if y \<noteq> 0 then Inl (ValueError zero_msg) else Inr s1)
              else Inr s) (\<lambda>s1.
        bind (numeric_loop f zero_check sin_theta cos_theta dtheta s1 as) (\<lambda>(ds, s2).
        Inr (PyFloat 1 # ds, s2)))
      else if a < 0 then Inl (ValueError negative_msg)
      else
        (let scale = dtheta / pi / a in
         bind (eval_list f s (map (\<lambda>t. a * t) sin_theta)) (\<lambda>(fcn_eval, s1).
         (let df_real = dot fcn_eval sin_theta * scale;
              df_imag = dot fcn_eval cos_theta * scale in
          bind (numeric_loop f zero_check sin_theta cos_theta dtheta s1 as) (\<lambda>(ds, s2).
          Inr (PyComplex (complex_of_real df_real + \<i> * complex_of_real df_imag) # ds, s2))))))"

text \<open>
  \<open>describing_function(fcn, amp, num_points=100, zero_check=True, try_method=True)\<close>:
  the value returned, in the shape of \<open>amp\<close>, and the state in which \<open>fcn\<close> is left.
  With \<open>try_method\<close> and a method, only the method is consulted. Otherwise
  \<open>theta[1]\<close> needs two sample points, the nonlinearity is run once over the smallest
  amplitude, and the loop above follows.
\<close>

definition describing_function ::
  "'s nonlinearity \<Rightarrow> real shaped \<Rightarrow> nat \<Rightarrow> bool \<Rightarrow> bool \<Rightarrow> error + (pynum shaped \<times> 's)" where
  "describing_function fcn amp num_points zero_check try_method =
     (case (if try_method then df_method fcn else None) of
        Some m \<Rightarrow>
          bind (method_list (m (state fcn)) (atleast_1d amp)) (\<lambda>df.
          bind (reshape_like amp df) (\<lambda>r. Inr (r, state fcn)))
      | None \<Rightarrow>
          (let theta = linspace 0 (2 * pi) num_points in
           if length theta < 2 then Inl IndexError
           else
             (let dtheta = theta ! 1 - theta ! 0;
                  sin_theta = map sin theta;
                  cos_theta = map cos theta in
              bind (amin (atleast_1d amp)) (\<lambda>amp_min.
              bind (eval_list (call fcn) (state fcn) (map (\<lambda>t. amp_min * t) sin_theta)) (\<lambda>(ys, s1).
              bind (numeric_loop (call fcn) zero_check sin_theta cos_theta dtheta s1
                      (atleast_1d amp)) (\<lambda>(df, s2).
              bind (reshape_like amp df) (\<lambda>r. Inr (r, s2))))))))"

subsection \<open>Doubles with infinities and not-a-number\<close>

text \<open>
  The values of the intersection routine and of the locator: a finite double, one of
  the two infinities, or not-a-number. \<open>rnd\<close> rounds the exact result of an
  operation, to an infinity where it overflows. The operations follow IEEE 754 with one
  zero: an operation on not-a-number gives not-a-number, and so do \<open>inf - inf\<close>,
  \<open>0 * inf\<close>, \<open>0 / 0\<close> and \<open>inf / inf\<close>; a comparison with not-a-number is false. Division
  is numpy's, which does not raise on a zero divisor.
\<close>

datatype double = Fin real | PInf | NInf | NaN

definition rnd :: "real \<Rightarrow> double" where
  "rnd x =
     (if fl x \<ge> 2 ^ 1024 then PInf
      else if fl x \<le> - (2 ^ 1024) then NInf
      else Fin (fl x))"

fun is_finite :: "double \<Rightarrow> bool" where
  "is_finite (Fin x) = True"
| "is_finite d = False"

fun is_neg :: "double \<Rightarrow> bool" where
  "is_neg (Fin x) = (x < 0)"
| "is_neg NInf = True"
| "is_neg d = False"

fun dneg :: "double \<Rightarrow> double" where
  "dneg (Fin x) = Fin (- x)"
| "dneg PInf = NInf"
| "dneg NInf = PInf"
| "dneg NaN = NaN"

fun dadd :: "double \<Rightarrow> double \<Rightarrow> double" where
  "dadd NaN b = NaN"
| "dadd a NaN = NaN"
| "dadd (Fin x) (Fin y) = rnd (x + y)"
| "dadd PInf NInf = NaN"
| "dadd NInf PInf = NaN"
| "dadd PInf b = PInf"
| "dadd NInf b = NInf"
| "dadd a b = b"

definition dsub :: "double \<Rightarrow> double \<Rightarrow> double" where
  "dsub a b = dadd a (dneg b)"

fun dmul :: "double \<Rightarrow> double \<Rightarrow> double" where
  "dmul NaN b = NaN"
| "dmul a NaN = NaN"
| "dmul (Fin x) (Fin y) = rnd (x * y)"
| "dmul a b =
     (if a = Fin 0 \<or> b = Fin 0 then NaN
      else if is_neg a = is_neg b then PInf else NInf)"

fun ddiv :: "double \<Rightarrow> double \<Rightarrow> double" where
  "ddiv NaN b = NaN"
| "ddiv a NaN = NaN"
| "ddiv (Fin x) (Fin y) =
     (if y = 0 then (if x = 0 then NaN else if x > 0 then PInf else NInf)
      else rnd (x / y))"
| "ddiv (Fin x) b = Fin 0"
| "ddiv a (Fin y) = (if is_neg a = (y < 0) then PInf else NInf)"
| "ddiv a b = NaN"

fun dabs :: "double \<Rightarrow> double" where
  "dabs (Fin x) = Fin \<bar>x\<bar>"
| "dabs NaN = NaN"
| "dabs d = PInf"

text \<open>\<open>a < b\<close> and \<open>a >= b\<close>.\<close>

fun dlt :: "double \<Rightarrow> double \<Rightarrow> bool" where
  "dlt NaN b = False"
| "dlt a NaN = False"
| "dlt (Fin x) (Fin y) = (x < y)"
| "dlt a NInf = False"
| "dlt PInf b = False"
| "dlt a b = True"

definition dge :: "double \<Rightarrow> double \<Rightarrow> bool" where
  "dge a b = (a \<noteq> NaN \<and> b \<noteq> NaN \<and> \<not> dlt a b)"

text \<open>
  A numpy scalar as the routine meets it: a \<open>float64\<close> or a \<open>complex128\<close>. In an
  operation on the two kinds the real one is taken as a complex number with imaginary
  part \<open>0\<close>; the product of two complex numbers is
  \<open>(ar*br - ai*bi) + (ar*bi + ai*br)j\<close>.
\<close>

datatype npnum = NpFloat double | NpComplex double double

fun re_part :: "npnum \<Rightarrow> double" where
  "re_part (NpFloat x) = x"
| "re_part (NpComplex x y) = x"

fun im_part :: "npnum \<Rightarrow> double" where
  "im_part (NpFloat x) = Fin 0"
| "im_part (NpComplex x y) = y"

fun nadd :: "npnum \<Rightarrow> npnum \<Rightarrow> npnum" where
  "nadd (NpFloat x) (NpFloat y) = NpFloat (dadd x y)"
| "nadd u v = NpComplex (dadd (re_part u) (re_part v)) (dadd (im_part u) (im_part v))"

fun nsub :: "npnum \<Rightarrow> npnum \<Rightarrow> npnum" where
  "nsub (NpFloat x) (NpFloat y) = NpFloat (dsub x y)"
| "nsub u v = NpComplex (dsub (re_part u) (re_part v)) (dsub (im_part u) (im_part v))"

fun nmul :: "npnum \<Rightarrow> npnum \<Rightarrow> npnum" where
  "nmul (NpFloat x) (NpFloat y) = NpFloat (dmul x y)"
| "nmul u v =
     NpComplex (dsub (dmul (re_part u) (re_part v)) (dmul (im_part u) (im_part v)))
               (dadd (dmul (re_part u) (im_part v)) (dmul (im_part u) (re_part v)))"

text \<open>\<open>abs\<close> of a scalar; of a complex number it is the modulus, rounded once.\<close>

fun np_abs :: "npnum \<Rightarrow> double" where
  "np_abs (NpFloat x) = dabs x"
| "np_abs (NpComplex (Fin x) (Fin y)) = rnd (sqrt (x\<^sup>2 + y\<^sup>2))"
| "np_abs (NpComplex x y) =
     (if x = PInf \<or> x = NInf \<or> y = PInf \<or> y = NInf then PInf else NaN)"

fun np_isfinite :: "npnum \<Rightarrow> bool" where
  "np_isfinite (NpFloat x) = is_finite x"
| "np_isfinite (NpComplex x y) = (is_finite x \<and> is_finite y)"

fun np_isnan :: "npnum \<Rightarrow> bool" where
  "np_isnan (NpFloat x) = (x = NaN)"
| "np_isnan (NpComplex x y) = (x = NaN \<or> y = NaN)"

subsection \<open>Intersection of two line segments\<close>

text \<open>
  The literal \<open>1e-8\<close>, and the bound \<open>np.float64(1.5 * 10.0**(-7))\<close> of
  \<open>assert_almost_equal\<close> with its default of 7 decimals.
\<close>

definition tol8 :: double where
  "tol8 = Fin (fl (1 / 10 ^ 8))"

definition tol7 :: double where
  "tol7 = Fin (fl (15 / 10 * fl (1 / 10 ^ 7)))"

text \<open>
  \<open>np.testing.assert_almost_equal(actual, desired)\<close> on two real scalars passes when
  both are not-a-number, or both are the same infinity, or both are finite with
  \<open>abs(desired - actual) < 1.5e-7\<close>:
  \<^verbatim>\<open>
  if not (isfinite(desired) and isfinite(actual)):
      if isnan(desired) or isnan(actual):
          if not (isnan(desired) and isnan(actual)):
              raise AssertionError(_build_err_msg())
      else:
          if not desired == actual:
              raise AssertionError(_build_err_msg())
      return
  if abs(desired - actual) >= np.float64(1.5 * 10.0**(-decimal)):
      raise AssertionError(_build_err_msg())
  \<close>
\<close>

definition scalar_almost_equal :: "double \<Rightarrow> double \<Rightarrow> bool" where
  "scalar_almost_equal actual desired =
     (if \<not> (is_finite desired \<and> is_finite actual)
      then (if desired = NaN \<or> actual = NaN then desired = NaN \<and> actual = NaN
            else desired = actual)
      else \<not> dge (dabs (dsub desired actual)) tol7)"

text \<open>
  When one of the two is complex, the real parts and the imaginary parts are first
  compared as real scalars; then the same test is made on the two numbers as they
  stand, with the modulus of the difference.
\<close>

definition assert_almost_equal :: "npnum \<Rightarrow> npnum \<Rightarrow> error + unit" where
  "assert_almost_equal actual desired =
     (case (actual, desired) of
        (NpFloat a, NpFloat d) \<Rightarrow>
          if scalar_almost_equal a d then Inr () else Inl AssertionError
      | _ \<Rightarrow>
          if \<not> (scalar_almost_equal (re_part actual) (re_part desired) \<and>
                scalar_almost_equal (im_part actual) (im_part desired))
          then Inl AssertionError
          else if \<not> (np_isfinite desired \<and> np_isfinite actual)
          then (if np_isnan desired \<or> np_isnan actual
                then (if np_isnan desired \<and> np_isnan actual then Inr ()
                      else Inl AssertionError)
                else if re_part desired = re_part actual \<and> im_part desired = im_part actual
                then Inr () else Inl AssertionError)
          else if dge (np_abs (nsub desired actual)) tol7 then Inl AssertionError
          else Inr ())"

text \<open>
  \<^verbatim>\<open>
  def _find_intersection(L1a, L1b, L2a, L2b):
      L1t = L1b - L1a
      L2t = L2b - L2a
      b = L1a - L2a
      detM = L1t.imag * L2t.real - L1t.real * L2t.imag
      if abs(detM) < 1e-8:
          return None
      s1 = (L2t.imag * b.real - L2t.real * b.imag) / detM
      if s1 < 0 or s1 > 1:
          return None
      s2 = (L1t.imag * b.real - L1t.real * b.imag) / detM
      if s2 < 0 or s2 > 1:
          return None
      np.testing.assert_almost_equal(L1a + s1 * L1t, L2a + s2 * L2t)
      return (s1, s2)
  \<close>
  The determinant, the two numerators, the two quotients and the two recomputed
  points are definitions of their own.
\<close>

definition detM :: "npnum \<Rightarrow> npnum \<Rightarrow> npnum \<Rightarrow> npnum \<Rightarrow> double" where
  "detM L1a L1b L2a L2b =
     dsub (dmul (im_part (nsub L1b L1a)) (re_part (nsub L2b L2a)))
          (dmul (re_part (nsub L1b L1a)) (im_part (nsub L2b L2a)))"

definition num_s1 :: "npnum \<Rightarrow> npnum \<Rightarrow> npnum \<Rightarrow> npnum \<Rightarrow> double" where
  "num_s1 L1a L1b L2a L2b =
     dsub (dmul (im_part (nsub L2b L2a)) (re_part (nsub L1a L2a)))
          (dmul (re_part (nsub L2b L2a)) (im_part (nsub L1a L2a)))"

definition num_s2 :: "npnum \<Rightarrow> npnum \<Rightarrow> npnum \<Rightarrow> npnum \<Rightarrow> double" where
  "num_s2 L1a L1b L2a L2b =
     dsub (dmul (im_part (nsub L1b L1a)) (re_part (nsub L1a L2a)))
          (dmul (re_part (nsub L1b L1a)) (im_part (nsub L1a L2a)))"

definition param_s1 :: "npnum \<Rightarrow> npnum \<Rightarrow> npnum \<Rightarrow> npnum \<Rightarrow> double" where
  "param_s1 L1a L1b L2a L2b = ddiv (num_s1 L1a L1b L2a L2b) (detM L1a L1b L2a L2b)"

definition param_s2 :: "npnum \<Rightarrow> npnum \<Rightarrow> npnum \<Rightarrow> npnum \<Rightarrow> double" where
  "param_s2 L1a L1b L2a L2b = ddiv (num_s2 L1a L1b L2a L2b) (detM L1a L1b L2a L2b)"

definition point1 :: "npnum \<Rightarrow> npnum \<Rightarrow> npnum \<Rightarrow> npnum \<Rightarrow> npnum" where
  "point1 L1a L1b L2a L2b =
     nadd L1a (nmul (NpFloat (param_s1 L1a L1b L2a L2b)) (nsub L1b L1a))"

definition point2 :: "npnum \<Rightarrow> npnum \<Rightarrow> npnum \<Rightarrow> npnum \<Rightarrow> npnum" where
  "point2 L1a L1b L2a L2b =
     nadd L2a (nmul (NpFloat (param_s2 L1a L1b L2a L2b)) (nsub L2b L2a))"

definition find_intersection ::
  "npnum \<Rightarrow> npnum \<Rightarrow> npnum \<Rightarrow> npnum \<Rightarrow> error + (double \<times> double) option" where
  "find_intersection L1a L1b L2a L2b =
     (if dlt (dabs (detM L1a L1b L2a L2b)) tol8 then Inr None
      else
        (let s1 = param_s1 L1a L1b L2a L2b in
         if dlt s1 (Fin 0) \<or> dlt (Fin 1) s1 then Inr None
         else
           (let s2 = param_s2 L1a L1b L2a L2b in
            if dlt s2 (Fin 0) \<or> dlt (Fin 1) s2 then Inr None
            else
              bind (assert_almost_equal (point1 L1a L1b L2a L2b) (point2 L1a L1b L2a L2b))
                (\<lambda>u. Inr (Some (s1, s2))))))"

subsection \<open>The limit-cycle locator\<close>

text \<open>List indexing \<open>xs[i]\<close> with a non-negative index.\<close>

definition getitem :: "'a list \<Rightarrow> nat \<Rightarrow> error + 'a" where
  "getitem xs i = (if i < length xs then Inr (xs ! i) else Inl IndexError)"

text \<open>The result object of \<open>scipy.optimize.minimize\<close>: \<open>res.success\<close> and \<open>res.x\<close>.\<close>

record optimize_result =
  res_success :: bool
  res_x :: "double \<times> double"

text \<open>
  What the locator has done so far: the state of the nonlinearity \<open>F\<close>, the list
  \<open>intersections\<close>, the warnings emitted and the labels drawn with \<open>plt.text\<close>
  (position, and the pair that the label is formatted with).
\<close>

record 's plot_state =
  fstate :: 's
  intersections :: "(double \<times> double) list"
  warnings :: "string list"
  texts :: "(double \<times> double \<times> double \<times> double) list"

definition refine_msg :: string where
  "refine_msg = ''not able to refine result; returning estimate''"

text \<open>A \<open>for\<close> loop over a list whose body may raise.\<close>

fun for_loop :: "('st \<Rightarrow> 'i \<Rightarrow> error + 'st) \<Rightarrow> 'st \<Rightarrow> 'i list \<Rightarrow> error + 'st" where
  "for_loop body st [] = Inr st"
| "for_loop body st (i # is) = bind (body st i) (\<lambda>st1. for_loop body st1 is)"

text \<open>
  The refinement of one coarse estimate:
  \<^verbatim>\<open>
  a_final, omega_final = a_guess, omega_guess
  if refine:
      res = scipy.optimize.minimize(_cost, [a_guess, omega_guess])
      if not res.success:
          warn("not able to refine result; returning estimate")
      else:
          a_final, omega_final = res.x[0], res.x[1]
  \<close>
  The minimizer is a parameter \<open>minimize\<close>: from the state of \<open>F\<close> (which the cost
  function evaluates) and the starting point it gives the result object and the state
  in which it leaves \<open>F\<close>, or the exception that escapes from it. The result is the
  final pair, the state of \<open>F\<close> and the warnings emitted.
\<close>

definition refine_estimate ::
  "('s \<Rightarrow> double \<times> double \<Rightarrow> error + (optimize_result \<times> 's)) \<Rightarrow> bool \<Rightarrow> 's \<Rightarrow>
   double \<times> double \<Rightarrow> error + ((double \<times> double) \<times> 's \<times> string list)" where
  "refine_estimate minimize refine s guess =
     (if refine then
        bind (minimize s guess) (\<lambda>(res, s1).
          if \<not> res_success res then Inr (guess, s1, [refine_msg])
          else Inr (res_x res, s1, []))
      else Inr (guess, s, []))"

text \<open>
  The body of the inner loop, for the segments \<open>i\<close> of the describing-function curve
  and \<open>j\<close> of the Nyquist curve:
  \<^verbatim>\<open>
  intersect = _find_intersection(N_vals[i], N_vals[i+1], H_vals[j], H_vals[j+1])
  if intersect == None:
      continue
  s_amp, s_omega = intersect
  a_guess = (1 - s_amp) * a[i] + s_amp * a[i+1]
  omega_guess = (1 - s_omega) * H_omega[j] + s_omega * H_omega[j+1]
  ... refinement ...
  if label:
      pos = H(1j * omega_final)
      plt.text(pos.real, pos.imag, label % (a_final, omega_final))
  intersections.append((a_final, omega_final))
  \<close>
  \<open>H\<close> is the linear system as a function of the complex frequency; \<open>label\<close> is the
  format string, false when empty. The formatting itself is not modelled: a label is
  recorded as its position and the pair it is formatted with. Entries of the arrays
  that are infinite or not-a-number are carried on like any other.
\<close>

definition plot_body ::
  "(npnum \<Rightarrow> npnum) \<Rightarrow> ('s \<Rightarrow> double \<times> double \<Rightarrow> error + (optimize_result \<times> 's)) \<Rightarrow>
   bool \<Rightarrow> string \<Rightarrow> double list \<Rightarrow> npnum list \<Rightarrow> npnum list \<Rightarrow> double list \<Rightarrow>
   nat \<Rightarrow> 's plot_state \<Rightarrow> nat \<Rightarrow> error + 's plot_state" where
  "plot_body H minimize refine label a N_vals H_vals H_omega i st j =
     bind (getitem N_vals i) (\<lambda>n0.
     bind (getitem N_vals (i + 1)) (\<lambda>n1.
     bind (getitem H_vals j) (\<lambda>h0.
     bind (getitem H_vals (j + 1)) (\<lambda>h1.
     bind (find_intersection n0 n1 h0 h1) (\<lambda>intersect.
       case intersect of
         None \<Rightarrow> Inr st
       | Some (s_amp, s_omega) \<Rightarrow>
           bind (getitem a i) (\<lambda>a0.
           bind (getitem a (i + 1)) (\<lambda>a1.
           bind (getitem H_omega j) (\<lambda>w0.
           bind (getitem H_omega (j + 1)) (\<lambda>w1.
           (let a_guess = dadd (dmul (dsub (Fin 1) s_amp) a0) (dmul s_amp a1);
                omega_guess = dadd (dmul (dsub (Fin 1) s_omega) w0) (dmul s_omega w1) in
            bind (refine_estimate minimize refine (fstate st) (a_guess, omega_guess))
              (\<lambda>((a_final, omega_final), s1, ws).
                 (let pos = H (nmul (NpComplex (Fin 0) (Fin 1)) (NpFloat omega_final)) in
                  Inr \<lparr>fstate = s1,
                       intersections = intersections st @ [(a_final, omega_final)],
                       warnings = warnings st @ ws,
                       texts = texts st @
                         (if label \<noteq> []
                          then [(re_part pos, im_part pos, a_final, omega_final)]
                          else [])\<rparr>))))))))))))"

text \<open>
  \<open>describing_function_plot(H, F, a, omega, refine, label)\<close>. Three things come from
  outside this module and are parameters: the Nyquist curve
  \<open>(H_real, H_imag, H_omega)\<close> that \<open>nyquist_plot\<close> returns, three arrays of one
  length; numpy's division \<open>-1/df\<close> of the array of describing-function values
  (\<open>neg_recip\<close>), which gives infinite and not-a-number entries where \<open>df\<close> is zero
  or not a number; and the minimizer. The result is the list of intersections with the
  warnings, the labels and the final state of \<open>F\<close>.
\<close>

definition describing_function_plot ::
  "(npnum \<Rightarrow> npnum) \<Rightarrow> 's nonlinearity \<Rightarrow> real list \<Rightarrow>
   double list \<times> double list \<times> double list \<Rightarrow> (pynum list \<Rightarrow> npnum list) \<Rightarrow>
   ('s \<Rightarrow> double \<times> double \<Rightarrow> error + (optimize_result \<times> 's)) \<Rightarrow> bool \<Rightarrow> string \<Rightarrow>
   error + 's plot_state" where
  "describing_function_plot H F a nyquist neg_recip minimize refine label =
     (case nyquist of (H_real, H_imag, H_omega) \<Rightarrow>
       (let H_vals = map2 (\<lambda>re im. nadd (NpFloat re) (nmul (NpComplex (Fin 0) (Fin 1)) (NpFloat im)))
                       H_real H_imag in
        bind (describing_function F (Array a) 100 True True) (\<lambda>(df, s1).
          (let N_vals = neg_recip (atleast_1d df);
               st0 = \<lparr>fstate = s1, intersections = [], warnings = [], texts = []\<rparr> in
           for_loop
             (\<lambda>st i. for_loop
                (plot_body H minimize refine label (map Fin a) N_vals H_vals H_omega i) st
                [0..<length H_vals - 1])
             st0 [0..<length N_vals - 1]))))"

subsection \<open>The sector function in the words of the specification\<close>

text \<open>
  The specification describes the auxiliary function as \<open>f(z) = sign(z)\<close> when
  \<open>|z| > 1\<close>, else \<open>(asin(z) + z sqrt(1 - z^2)) 2/pi\<close>. This definition follows
  those words; \<open>f_aux\<close> above follows the source.
\<close>

definition f_spec :: "real \<Rightarrow> real" where
  "f_spec z = (if \<bar>z\<bar> > 1 then sgn z else (arcsin z + z * sqrt (1 - z\<^sup>2)) * 2 / pi)"

section \<open>Properties\<close>

subsection \<open>Helper facts\<close>

lemma asin_in_domain: "\<bar>x\<bar> \<le> 1 \<Longrightarrow> asin x = Inr (arcsin x)"
  by (simp add: asin_def)

lemma div_py_nonzero: "y \<noteq> 0 \<Longrightarrow> div_py x y = Inr (x / y)"
  by (simp add: div_py_def)

lemma sqrt_py_nonneg: "0 \<le> x \<Longrightarrow> sqrt_py x = Inr (sqrt x)"
  by (simp add: sqrt_py_def)

lemma f_aux_spec: "f_aux z = Inr (f_spec z)"
proof (cases "\<bar>z\<bar> > 1")
  case True
  then show ?thesis by (auto simp: f_aux_def f_spec_def copysign1_def sgn_real_def)
next
  case False
  then have "\<bar>z\<bar> \<le> 1" by simp
  then have "z\<^sup>2 \<le> 1" by (simp add: abs_square_le_1)
  with False \<open>\<bar>z\<bar> \<le> 1\<close> show ?thesis
    by (simp add: f_aux_def f_spec_def asin_in_domain sqrt_py_nonneg)
qed

text \<open>One call of the relay keeps the branch in \<open>{-1, 1}\<close> and the parameters.\<close>

lemma relay_call_branch:
  assumes "branch r = - 1 \<or> branch r = 1"
  shows "\<exists>y r1. relay_call r x = Inr (y, r1) \<and> (branch r1 = - 1 \<or> branch r1 = 1) \<and>
           y = relay_b r * real_of_int (branch r1) \<and>
           relay_b r1 = relay_b r \<and> relay_c r1 = relay_c r"
  using assms by (auto simp: relay_call_def)

lemma relay_eval_list:
  assumes "branch r = - 1 \<or> branch r = 1"
  shows "\<exists>ys r1. eval_list relay_call r xs = Inr (ys, r1) \<and> (branch r1 = - 1 \<or> branch r1 = 1) \<and>
           relay_b r1 = relay_b r \<and> relay_c r1 = relay_c r \<and> length ys = length xs"
  using assms
proof (induction xs arbitrary: r)
  case Nil
  then show ?case by simp
next
  case (Cons x xs)
  from relay_call_branch [OF Cons.prems, of x] obtain y r1 where
    step: "relay_call r x = Inr (y, r1)" and br: "branch r1 = - 1 \<or> branch r1 = 1"
    and par: "relay_b r1 = relay_b r" "relay_c r1 = relay_c r" by blast
  from Cons.IH [OF br] obtain ys r2 where
    rest: "eval_list relay_call r1 xs = Inr (ys, r2)" and br2: "branch r2 = - 1 \<or> branch r2 = 1"
    and par2: "relay_b r2 = relay_b r1" "relay_c r2 = relay_c r1" and len: "length ys = length xs"
    by blast
  show ?case using step rest br2 par par2 len by simp
qed

text \<open>Facts about rounding.\<close>

lemma pow2_pos: "0 < pow2 e"
  by (simp add: pow2_def)

lemma pow2_powr: "pow2 e = 2 powr real_of_int e"
  by (simp add: pow2_def powr_int)

lemma rne_unfold:
  "rne t = (if t - of_int \<lfloor>t\<rfloor> < 1 / 2 then \<lfloor>t\<rfloor>
            else if t - of_int \<lfloor>t\<rfloor> > 1 / 2 then \<lfloor>t\<rfloor> + 1
            else if even \<lfloor>t\<rfloor> then \<lfloor>t\<rfloor> else \<lfloor>t\<rfloor> + 1)"
  by (simp add: rne_def Let_def)

lemma rne_error: "\<bar>of_int (rne t) - t\<bar> \<le> 1 / 2"
proof -
  define f where "f = \<lfloor>t\<rfloor>"
  define d where "d = t - of_int f"
  have "of_int f \<le> t" "t < of_int f + 1" unfolding f_def by linarith+
  then have d: "0 \<le> d" "d < 1" unfolding d_def by linarith+
  have r: "rne t = (if d < 1 / 2 then f else if d > 1 / 2 then f + 1
                    else if even f then f else f + 1)"
    unfolding rne_unfold f_def [symmetric] d_def [symmetric] ..
  have t: "of_int f - t = - d" "of_int (f + 1) - t = 1 - d" unfolding d_def by simp_all
  consider "d < 1 / 2" | "d > 1 / 2" | "d = 1 / 2" by linarith
  then show ?thesis
  proof cases
    case 1
    then have "rne t = f" unfolding r by simp
    then show ?thesis using t(1) d 1 by simp
  next
    case 2
    then have "rne t = f + 1" unfolding r by simp
    then show ?thesis using t(2) d 2 by simp
  next
    case 3
    then have "rne t = f \<or> rne t = f + 1" unfolding r by simp
    then show ?thesis using t 3 by auto
  qed
qed

lemma rne_of_int: "rne (of_int n) = n"
  by (simp add: rne_unfold)

lemma rne_minus: "rne (- t) = - rne t"
proof (cases "t = of_int \<lfloor>t\<rfloor>")
  case True
  then obtain n where "t = of_int n" ..
  then have "- t = of_int (- n)" by simp
  then show ?thesis using \<open>t = of_int n\<close> by (simp only: rne_of_int)
next
  case False
  define f where "f = \<lfloor>t\<rfloor>"
  define d where "d = t - of_int f"
  have "of_int f \<le> t" "t < of_int f + 1" unfolding f_def by linarith+
  with False have d: "0 < d" "d < 1" unfolding d_def f_def by linarith+
  have "\<lfloor>- t\<rfloor> = - f - 1"
  proof (rule floor_unique)
    show "of_int (- f - 1) \<le> - t" using d unfolding d_def by simp
    show "- t < of_int (- f - 1) + 1" using d unfolding d_def by simp
  qed
  then have fm: "\<lfloor>- t\<rfloor> = - f - 1" and dm: "- t - of_int \<lfloor>- t\<rfloor> = 1 - d"
    unfolding d_def by simp_all
  have r: "rne t = (if d < 1 / 2 then f else if d > 1 / 2 then f + 1
                    else if even f then f else f + 1)"
    unfolding rne_unfold f_def [symmetric] d_def [symmetric] ..
  have rm: "rne (- t) = (if 1 - d < 1 / 2 then - f - 1 else if 1 - d > 1 / 2 then - f - 1 + 1
                    else if even (- f - 1) then - f - 1 else - f - 1 + 1)"
    unfolding rne_unfold dm unfolding fm ..
  consider "d < 1 / 2" | "d > 1 / 2" | "d = 1 / 2" by linarith
  then show ?thesis
  proof cases
    case 1
    then show ?thesis unfolding r rm by simp
  next
    case 2
    then show ?thesis unfolding r rm by simp
  next
    case 3
    then show ?thesis unfolding r rm by simp
  qed
qed

lemma rne_nonneg: "0 \<le> t \<Longrightarrow> 0 \<le> rne t"
proof -
  assume "0 \<le> t"
  then have "0 \<le> \<lfloor>t\<rfloor>" by simp
  then show ?thesis unfolding rne_unfold by auto
qed

lemma ulp_exp_minus: "ulp_exp (- x) = ulp_exp x"
  by (simp add: ulp_exp_def)

lemma fl_zero: "fl 0 = 0"
  by (simp add: fl_def)

lemma fl_minus: "fl (- x) = - fl x"
  by (simp add: fl_def ulp_exp_minus rne_minus)

lemma fl_nonneg: "0 \<le> x \<Longrightarrow> 0 \<le> fl x"
  using rne_nonneg [of "x / pow2 (ulp_exp x)"] pow2_pos [of "ulp_exp x"]
  by (simp add: fl_def)

text \<open>Rounding moves a value by at most half a unit in the last place.\<close>

lemma fl_error: "\<bar>fl x - x\<bar> \<le> half_ulp x"
proof (cases "x = 0")
  case True
  then show ?thesis using pow2_pos [of "ulp_exp x"] by (simp add: fl_def half_ulp_def)
next
  case False
  let ?u = "pow2 (ulp_exp x)"
  have u: "0 < ?u" by (rule pow2_pos)
  have "fl x - x = (of_int (rne (x / ?u)) - x / ?u) * ?u"
    using u False by (simp add: fl_def field_simps)
  then have "\<bar>fl x - x\<bar> = \<bar>of_int (rne (x / ?u)) - x / ?u\<bar> * ?u"
    using u by (simp add: abs_mult)
  also have "\<dots> \<le> 1 / 2 * ?u"
    using rne_error [of "x / ?u"] u by (intro mult_right_mono) simp_all
  finally show ?thesis by (simp add: half_ulp_def)
qed

lemma half_ulp_pos: "0 < half_ulp x"
  using pow2_pos [of "ulp_exp x"] by (simp add: half_ulp_def)

lemma ulp_exp_eval:
  assumes "pow2 e \<le> \<bar>x\<bar>" and "\<bar>x\<bar> < pow2 (e + 1)" and "- 1022 \<le> e"
  shows "ulp_exp x = e - 52"
proof -
  have pos: "0 < \<bar>x\<bar>" using assms(1) pow2_pos [of e] by linarith
  have "\<lfloor>log 2 \<bar>x\<bar>\<rfloor> = e"
    using assms(1,2) pos by (simp add: floor_log_eq_powr_iff pow2_powr)
  then show ?thesis using assms(3) by (simp add: ulp_exp_def)
qed

text \<open>How \<open>fl\<close> is computed at a value whose binary exponent \<open>e\<close> is known.\<close>

lemma fl_eval:
  assumes "pow2 e \<le> \<bar>x\<bar>" and "\<bar>x\<bar> < pow2 (e + 1)" and "- 1022 \<le> e"
  shows "fl x = of_int (rne (x / pow2 (e - 52))) * pow2 (e - 52)"
proof -
  have "x \<noteq> 0" using assms(1) pow2_pos [of e] by auto
  then show ?thesis by (simp add: fl_def ulp_exp_eval [OF assms])
qed

lemma pow2_add_nat: "pow2 (a + int n) = pow2 a * 2 ^ n"
proof -
  have "pow2 (a + int n) = 2 powr (real_of_int a + real n)"
    by (simp add: pow2_powr)
  also have "\<dots> = 2 powr real_of_int a * 2 powr real n"
    by (simp add: powr_add)
  also have "\<dots> = pow2 a * 2 ^ n"
    by (simp add: pow2_powr powr_realpow)
  finally show ?thesis .
qed

text \<open>A value with a significand of at most 53 bits is a double: \<open>fl\<close> leaves it.\<close>

lemma fl_exact:
  assumes x: "x = of_int m * pow2 q" and m: "\<bar>m\<bar> < 2 ^ 53" and q: "- 1074 \<le> q"
  shows "fl x = x"
proof (cases "m = 0")
  case True
  then show ?thesis using x by (simp add: fl_def)
next
  case False
  have xpos: "0 < \<bar>x\<bar>" using False x pow2_pos [of q] by simp
  have "\<bar>x\<bar> = \<bar>of_int m\<bar> * pow2 q" using x pow2_pos [of q] by (simp add: abs_mult)
  also have "\<dots> < 2 ^ 53 * pow2 q"
  proof -
    have "\<bar>real_of_int m\<bar> < 2 ^ 53" using m by (metis of_int_abs of_int_less_numeral_power_cancel_iff)
    then show ?thesis using pow2_pos [of q] by simp
  qed
  also have "\<dots> = pow2 (q + 53)" using pow2_add_nat [of q 53] by simp
  finally have "\<bar>x\<bar> < 2 powr real_of_int (q + 53)" by (simp add: pow2_powr)
  then have "log 2 \<bar>x\<bar> < real_of_int (q + 53)"
    using xpos by (simp add: log_less_iff)
  then have "\<lfloor>log 2 \<bar>x\<bar>\<rfloor> < q + 53" by linarith
  then have ue: "ulp_exp x \<le> q" using q by (simp add: ulp_exp_def)
  define n where "n = nat (q - ulp_exp x)"
  have qn: "q = ulp_exp x + int n" using ue by (simp add: n_def)
  define u where "u = pow2 (ulp_exp x)"
  have u: "0 < u" unfolding u_def by (rule pow2_pos)
  have "pow2 q = u * 2 ^ n"
    unfolding u_def using pow2_add_nat [of "ulp_exp x" n] qn by simp
  then have "x = of_int m * 2 ^ n * u" using x by simp
  then have "x / u = of_int m * 2 ^ n" using u by simp
  then have "x / pow2 (ulp_exp x) = of_int (m * 2 ^ n)"
    unfolding u_def by simp
  then have "rne (x / pow2 (ulp_exp x)) = m * 2 ^ n" by (simp only: rne_of_int)
  moreover have "of_int (m * 2 ^ n) * pow2 (ulp_exp x) = x"
    using \<open>x / pow2 (ulp_exp x) = of_int (m * 2 ^ n)\<close> pow2_pos [of "ulp_exp x"]
    by (simp add: field_simps)
  ultimately show ?thesis using xpos by (simp add: fl_def)
qed

lemma fl_of_int: "\<bar>m\<bar> < 2 ^ 53 \<Longrightarrow> fl (of_int m) = of_int m"
  using fl_exact [of "of_int m" m 0] by (simp add: pow2_def)

lemma fl_numeral: "(numeral n :: int) < 2 ^ 53 \<Longrightarrow> fl (numeral n) = numeral n"
  using fl_of_int [of "numeral n"] by simp

lemma fl_neg_numeral: "(numeral n :: int) < 2 ^ 53 \<Longrightarrow> fl (- numeral n) = - numeral n"
  using fl_of_int [of "- numeral n"] by simp

lemma fl_one: "fl 1 = 1"
  using fl_of_int [of 1] by simp

lemma fl_dyadic:
  "\<bar>m\<bar> < 2 ^ 53 \<Longrightarrow> n \<le> 1074 \<Longrightarrow> fl (of_int m / 2 ^ n) = of_int m / 2 ^ n"
proof -
  assume m: "\<bar>m\<bar> < 2 ^ 53" and n: "n \<le> 1074"
  have "pow2 (- int n) = 1 / 2 ^ n" by (simp add: pow2_def)
  then have "of_int m / 2 ^ n = of_int m * pow2 (- int n)" by simp
  then show ?thesis using fl_exact [OF _ m, of "of_int m / 2 ^ n" "- int n"] n by simp
qed

text \<open>What one sample does to the center of the backlash.\<close>

lemma backlash_step_cases:
  "(center (backlash_step k x) = center k \<and>
      \<bar>fl (x - center k)\<bar> \<le> fl (backlash_b k / 2)) \<or>
   center (backlash_step k x) = fl (x - fl (backlash_b k / 2)) \<or>
   center (backlash_step k x) = fl (x + fl (backlash_b k / 2))"
proof -
  have neg: "fl (- backlash_b k / 2) = - fl (backlash_b k / 2)"
    using fl_minus [of "backlash_b k / 2"] by simp
  show ?thesis
    unfolding backlash_step_def neg by (auto simp: abs_le_iff)
qed

lemma backlash_step_b: "backlash_b (backlash_step k x) = backlash_b k"
  by (simp add: backlash_step_def)

lemma backlash_step_bound:
  assumes "backlash_b k \<ge> 0"
  shows "\<bar>x - center (backlash_step k x)\<bar> \<le>
           fl (backlash_b k / 2) +
           max (half_ulp (x - center k))
             (max (half_ulp (x - fl (backlash_b k / 2))) (half_ulp (x + fl (backlash_b k / 2))))"
proof -
  define h where "h = fl (backlash_b k / 2)"
  have h: "0 \<le> h" unfolding h_def using assms by (intro fl_nonneg) simp
  consider
      (same) "center (backlash_step k x) = center k" "\<bar>fl (x - center k)\<bar> \<le> h"
    | (up) "center (backlash_step k x) = fl (x - h)"
    | (down) "center (backlash_step k x) = fl (x + h)"
    using backlash_step_cases [of k x] unfolding h_def by blast
  then have "\<bar>x - center (backlash_step k x)\<bar> \<le>
           h + max (half_ulp (x - center k)) (max (half_ulp (x - h)) (half_ulp (x + h)))"
  proof cases
    case same
    have "\<bar>x - center k\<bar> \<le> \<bar>fl (x - center k)\<bar> + \<bar>fl (x - center k) - (x - center k)\<bar>"
      by linarith
    also have "\<dots> \<le> h + half_ulp (x - center k)"
      using same(2) fl_error [of "x - center k"] by linarith
    finally show ?thesis using same(1) by simp
  next
    case up
    have "\<bar>x - fl (x - h)\<bar> \<le> h + \<bar>fl (x - h) - (x - h)\<bar>" using h by linarith
    also have "\<dots> \<le> h + half_ulp (x - h)" using fl_error [of "x - h"] by linarith
    finally show ?thesis using up by simp
  next
    case down
    have "\<bar>x - fl (x + h)\<bar> \<le> h + \<bar>fl (x + h) - (x + h)\<bar>" using h by linarith
    also have "\<dots> \<le> h + half_ulp (x + h)" using fl_error [of "x + h"] by linarith
    finally show ?thesis using down by simp
  qed
  then show ?thesis unfolding h_def .
qed

lemma backlash_loop_Cons:
  "backlash_loop k (x # xs) =
     (center (backlash_step k x) # fst (backlash_loop (backlash_step k x) xs),
      snd (backlash_loop (backlash_step k x) xs))"
  by (simp add: Let_def split: prod.splits)

lemma backlash_loop_length: "length (fst (backlash_loop k xs)) = length xs"
  by (induction xs arbitrary: k) (simp_all add: backlash_loop_Cons del: backlash_loop.simps(2))

lemma backlash_loop_state: "snd (backlash_loop k xs) = foldl backlash_step k xs"
  by (induction xs arbitrary: k) (simp_all add: backlash_loop_Cons del: backlash_loop.simps(2))

text \<open>The \<open>i\<close>-th output is the center after the first \<open>i + 1\<close> samples, in order.\<close>

lemma backlash_loop_nth:
  "i < length xs \<Longrightarrow>
     fst (backlash_loop k xs) ! i = center (foldl backlash_step k (take (Suc i) xs))"
proof (induction xs arbitrary: k i)
  case Nil
  then show ?case by simp
next
  case (Cons x xs)
  show ?case
  proof (cases i)
    case 0
    then show ?thesis by (simp add: backlash_loop_Cons del: backlash_loop.simps(2))
  next
    case (Suc n)
    with Cons.prems have "n < length xs" by simp
    from Cons.IH [OF this, of "backlash_step k x"] Suc show ?thesis
      by (simp add: backlash_loop_Cons del: backlash_loop.simps(2))
  qed
qed

text \<open>
  The double nearest to \<open>0.1\<close> is \<open>3602879701896397 / 2^55\<close>. From the center \<open>0\<close>
  the sample \<open>-2.0\<close> moves the center to the double nearest to \<open>-2 + b/2\<close>.
\<close>

lemma rounded_sum_example:
  "fl (- 2 + 3602879701896397 / 2 ^ 56) = - 8782019273372467 / 2 ^ 52"
proof -
  let ?v = "- 2 + 3602879701896397 / 2 ^ 56 :: real"
  have "fl ?v = of_int (rne (?v / pow2 (0 - 52))) * pow2 (0 - 52)"
    by (rule fl_eval) (simp_all add: pow2_def)
  moreover have q: "?v / pow2 (0 - 52) = - 140512308373959475 / 16"
    by (simp add: pow2_def)
  moreover have "rne (- 140512308373959475 / 16) = - 8782019273372467"
  proof -
    have "\<lfloor>- 140512308373959475 / 16 :: real\<rfloor> = - 8782019273372468" by simp
    then show ?thesis by (simp add: rne_unfold)
  qed
  ultimately show ?thesis by (simp add: pow2_def)
qed

lemma backlash_tenth_step:
  "backlash_step (backlash_init (3602879701896397 / 2 ^ 55)) (- 2) =
     \<lparr>backlash_b = 3602879701896397 / 2 ^ 55, center = - 8782019273372467 / 2 ^ 52\<rparr>"
proof -
  define b :: real where "b = 3602879701896397 / 2 ^ 55"
  define h :: real where "h = 3602879701896397 / 2 ^ 56"
  define c :: real where "c = - 8782019273372467 / 2 ^ 52"
  have bh: "b / 2 = h" "- b / 2 = - h" by (simp_all add: b_def h_def)
  have d: "fl (- 2 - 0) = - 2" by (simp add: fl_neg_numeral)
  have fh: "fl h = h"
    unfolding h_def using fl_dyadic [of 3602879701896397 56] by simp
  have fhm: "fl (- h) = - h" using fl_minus [of h] fh by simp
  have fc: "fl (- 2 + h) = c"
    unfolding h_def c_def by (rule rounded_sum_example)
  have cmp: "\<not> - 2 > h" "- 2 < - h" "h < 2" by (simp_all add: h_def)
  have d': "fl (- 2) = - 2" by (simp add: fl_neg_numeral)
  have fc': "fl (h - 2) = c" using fc by (simp add: add.commute)
  have "backlash_step \<lparr>backlash_b = b, center = 0\<rparr> (- 2) = \<lparr>backlash_b = b, center = c\<rparr>"
    unfolding backlash_step_def by (simp add: bh d' fh fhm fc' cmp)
  then show ?thesis unfolding backlash_init_def b_def c_def .
qed

text \<open>
  A backlash of width \<open>2\<close> driven to \<open>3\<close>, back to \<open>2\<close> and down to \<open>0\<close>: the center
  follows to \<open>2\<close>, holds, and follows to \<open>1\<close>; no operation is rounded here.
\<close>

lemma backlash_two_steps:
  "backlash_step (backlash_init 2) 3 = \<lparr>backlash_b = 2, center = 2\<rparr>"
  "backlash_step \<lparr>backlash_b = 2, center = 2\<rparr> 2 = \<lparr>backlash_b = 2, center = 2\<rparr>"
  "backlash_step \<lparr>backlash_b = 2, center = 2\<rparr> 0 = \<lparr>backlash_b = 2, center = 1\<rparr>"
proof -
  have m: "fl (- 1) = - 1" "fl (- 2) = - 2" "fl 0 = 0" "fl 1 = 1" "fl 2 = 2" "fl 3 = 3"
    using fl_minus [of 1] by (simp_all add: fl_one fl_numeral fl_neg_numeral fl_zero)
  have "backlash_step \<lparr>backlash_b = 2, center = 0\<rparr> 3 = \<lparr>backlash_b = 2, center = 2\<rparr>"
    unfolding backlash_step_def by (simp add: m)
  then show "backlash_step (backlash_init 2) 3 = \<lparr>backlash_b = 2, center = 2\<rparr>"
    unfolding backlash_init_def .
  show "backlash_step \<lparr>backlash_b = 2, center = 2\<rparr> 2 = \<lparr>backlash_b = 2, center = 2\<rparr>"
    unfolding backlash_step_def by (simp add: m)
  show "backlash_step \<lparr>backlash_b = 2, center = 2\<rparr> 0 = \<lparr>backlash_b = 2, center = 1\<rparr>"
    unfolding backlash_step_def by (simp add: m)
qed

text \<open>Facts about the estimator.\<close>

lemma length_linspace: "length (linspace a b n) = n"
  by (simp add: linspace_def)

lemma eval_list_stateless:
  "eval_list (\<lambda>s x. Inr (f x, s)) s xs = Inr (map f xs, s)"
  by (induction xs) simp_all

lemma eval_list_total:
  assumes "\<And>s x. \<exists>y s1. f s x = Inr (y, s1)"
  shows "\<exists>ys s1. eval_list f s xs = Inr (ys, s1)"
proof (induction xs arbitrary: s)
  case Nil
  then show ?case by simp
next
  case (Cons x xs)
  from assms obtain y s1 where step: "f s x = Inr (y, s1)" by blast
  from Cons.IH obtain ys s2 where rest: "eval_list f s1 xs = Inr (ys, s2)" by blast
  show ?case using step rest by simp
qed

text \<open>The numeric path is taken when there is no method or \<open>try_method\<close> is off.\<close>

lemma describing_function_numeric:
  assumes "df_method F = None \<or> \<not> try_method" and "2 \<le> n"
  shows "describing_function F (Scalar a) n zero_check try_method =
     bind (eval_list (call F) (state F) (map (\<lambda>t. a * t) (map sin (linspace 0 (2 * pi) n)))) (\<lambda>(ys, s1).
     bind (numeric_loop (call F) zero_check (map sin (linspace 0 (2 * pi) n))
             (map cos (linspace 0 (2 * pi) n))
             (linspace 0 (2 * pi) n ! 1 - linspace 0 (2 * pi) n ! 0) s1 [a]) (\<lambda>(df, s2).
     bind (reshape_like (Scalar a) df) (\<lambda>r. Inr (r, s2))))"
proof -
  have sel: "(if try_method then df_method F else None) = None"
    using assms(1) by auto
  have len: "\<not> length (linspace 0 (2 * pi) n) < 2"
    using assms(2) by (simp add: length_linspace)
  show ?thesis
    unfolding describing_function_def sel using len by (simp add: Let_def)
qed

lemma describing_function_method:
  assumes "df_method F = Some m"
  shows "describing_function F (Scalar a) n zero_check True =
           bind (m (state F) a) (\<lambda>d. Inr (Scalar d, state F))"
proof (cases "m (state F) a")
  case (Inl e)
  then show ?thesis using assms by (simp add: describing_function_def)
next
  case (Inr d)
  then show ?thesis using assms by (simp add: describing_function_def)
qed

lemma generic_negative_amplitude:
  assumes "df_method F = None \<or> \<not> try_method" and "2 \<le> n" and "a < 0"
    and total: "\<And>s x. \<exists>y s1. call F s x = Inr (y, s1)"
  shows "describing_function F (Scalar a) n zero_check try_method = Inl (ValueError negative_msg)"
proof -
  from eval_list_total [of "call F", OF total] obtain ys s1 where
    "eval_list (call F) (state F) (map (\<lambda>t. a * t) (map sin (linspace 0 (2 * pi) n))) = Inr (ys, s1)"
    by blast
  then show ?thesis
    using assms(3) by (simp add: describing_function_numeric [OF assms(1,2)])
qed

lemma backlash_rest_example:
  "call (backlash_fcn (backlash_init 2)) (backlash_init 2) 0 = Inr (0, backlash_init 2)"
proof -
  have m: "fl (- 1) = - 1" "fl 0 = 0" "fl 1 = 1"
    using fl_minus [of 1] by (simp_all add: fl_one fl_zero)
  have "backlash_step \<lparr>backlash_b = 2, center = 0\<rparr> 0 = \<lparr>backlash_b = 2, center = 0\<rparr>"
    unfolding backlash_step_def by (simp add: m)
  then have "backlash_step (backlash_init 2) 0 = backlash_init 2"
    unfolding backlash_init_def .
  then show ?thesis
    unfolding backlash_fcn_def backlash_call.simps backlash_loop_Cons
    by (simp add: Let_def backlash_init_def)
qed
















lemma dadd_NaN_right: "dadd a NaN = NaN"
  by (cases a) simp_all

lemma dmul_NaN_right: "dmul a NaN = NaN"
  by (cases a) simp_all

lemma ddiv_NaN_right: "ddiv a NaN = NaN"
  by (cases a) simp_all

lemma dsub_NaN: "dsub NaN b = NaN" "dsub a NaN = NaN"
  by (simp_all add: dsub_def dadd_NaN_right)

lemma dlt_NaN_right: "\<not> dlt a NaN"
  by (cases a) simp_all










lemma assert_almost_equal_cases:
  "assert_almost_equal p q = Inr () \<or> assert_almost_equal p q = Inl AssertionError"
  by (cases p; cases q) (simp_all add: assert_almost_equal_def)



text \<open>What the routine returns, in one equation.\<close>

lemma find_intersection_eq:
  "find_intersection L1a L1b L2a L2b =
     (if dlt (dabs (detM L1a L1b L2a L2b)) tol8
         \<or> dlt (param_s1 L1a L1b L2a L2b) (Fin 0) \<or> dlt (Fin 1) (param_s1 L1a L1b L2a L2b)
         \<or> dlt (param_s2 L1a L1b L2a L2b) (Fin 0) \<or> dlt (Fin 1) (param_s2 L1a L1b L2a L2b)
      then Inr None
      else if assert_almost_equal (point1 L1a L1b L2a L2b) (point2 L1a L1b L2a L2b) = Inr ()
      then Inr (Some (param_s1 L1a L1b L2a L2b, param_s2 L1a L1b L2a L2b))
      else Inl AssertionError)"
  using assert_almost_equal_cases [of "point1 L1a L1b L2a L2b" "point2 L1a L1b L2a L2b"]
  by (auto simp: find_intersection_def Let_def)






text \<open>
  An end point that is not a number is carried through the intersection routine.
\<close>

lemma nan_end_point:
  "find_intersection (NpComplex NaN NaN) (NpComplex (Fin 0) (Fin 1))
     (NpComplex (Fin (- 1)) (Fin 0)) (NpComplex (Fin 3) (Fin 0)) = Inr (Some (NaN, NaN))"
proof -
  let ?a = "NpComplex NaN NaN" and ?b = "NpComplex (Fin 0) (Fin 1)"
  let ?c = "NpComplex (Fin (- 1)) (Fin 0)" and ?d = "NpComplex (Fin 3) (Fin 0)"
  have d: "detM ?a ?b ?c ?d = NaN"
    by (simp add: detM_def dsub_NaN dmul_NaN_right dadd_NaN_right)
  have s1: "param_s1 ?a ?b ?c ?d = NaN" by (simp add: param_s1_def d ddiv_NaN_right)
  have s2: "param_s2 ?a ?b ?c ?d = NaN" by (simp add: param_s2_def d ddiv_NaN_right)
  have p1: "point1 ?a ?b ?c ?d = NpComplex NaN NaN"
    by (simp add: point1_def s1 dsub_NaN)
  have p2: "point2 ?a ?b ?c ?d = NpComplex NaN NaN"
    by (simp add: point2_def s2 dsub_NaN dadd_NaN_right)
  have ok: "assert_almost_equal (NpComplex NaN NaN) (NpComplex NaN NaN) = Inr ()"
    by (simp add: assert_almost_equal_def scalar_almost_equal_def)
  show ?thesis
    by (simp add: find_intersection_eq d s1 s2 p1 p2 ok)
qed













text \<open>
  Facts about the locator: with a minimizer that returns, the only exception that
  leaves the loops is the \<open>AssertionError\<close> of the intersection routine.
\<close>

lemma find_intersection_outcome:
  "(\<exists>r. find_intersection p q u v = Inr r) \<or> find_intersection p q u v = Inl AssertionError"
  by (simp add: find_intersection_eq)

lemma for_loop_outcome:
  assumes "\<And>st i. i \<in> set js \<Longrightarrow>
             (\<exists>st1. body st i = Inr st1) \<or> body st i = Inl AssertionError"
  shows "(\<exists>st1. for_loop body st js = Inr st1) \<or> for_loop body st js = Inl AssertionError"
  using assms
proof (induction js arbitrary: st)
  case Nil
  then show ?case by simp
next
  case (Cons j js)
  from Cons.prems [of j st]
  consider st1 where "body st j = Inr st1" | "body st j = Inl AssertionError" by auto
  then show ?case
  proof cases
    case 1
    from Cons.IH [of st1] Cons.prems
    have "(\<exists>st2. for_loop body st1 js = Inr st2) \<or> for_loop body st1 js = Inl AssertionError"
      by auto
    with 1 show ?thesis by simp
  next
    case 2
    then show ?thesis by simp
  qed
qed

lemma refine_estimate_total:
  assumes "\<And>s g. \<exists>res s1. minimize s g = Inr (res, s1)"
  shows "\<exists>p s1 ws. refine_estimate minimize refine s g = Inr (p, s1, ws)"
proof (cases refine)
  case False
  then show ?thesis by (simp add: refine_estimate_def)
next
  case True
  from assms obtain res s1 where "minimize s g = Inr (res, s1)" by blast
  with True show ?thesis by (simp add: refine_estimate_def)
qed

lemma plot_body_outcome:
  assumes i: "i + 1 < length N_vals"
    and j: "j + 1 < length H_vals" and la: "length a = length N_vals"
    and lw: "length H_vals \<le> length H_omega"
    and tot: "\<And>s g. \<exists>res s1. minimize s g = Inr (res, s1)"
  shows "(\<exists>st1. plot_body H minimize refine label a N_vals H_vals H_omega i st j = Inr st1)
         \<or> plot_body H minimize refine label a N_vals H_vals H_omega i st j = Inl AssertionError"
proof -
  let ?f = "find_intersection (N_vals ! i) (N_vals ! (i + 1)) (H_vals ! j) (H_vals ! (j + 1))"
  from find_intersection_outcome [of "N_vals ! i" "N_vals ! (i + 1)" "H_vals ! j" "H_vals ! (j + 1)"]
  consider r where "?f = Inr r" | "?f = Inl AssertionError" by auto
  then show ?thesis
  proof cases
    case 2
    with i j show ?thesis by (simp add: plot_body_def getitem_def)
  next
    case 1
    show ?thesis
    proof (cases r)
      case None
      with 1 i j show ?thesis by (simp add: plot_body_def getitem_def)
    next
      case (Some p)
      obtain s_amp s_omega where p: "p = (s_amp, s_omega)" by (cases p)
      let ?g = "(dadd (dmul (dsub (Fin 1) s_amp) (a ! i)) (dmul s_amp (a ! (i + 1))),
                 dadd (dmul (dsub (Fin 1) s_omega) (H_omega ! j)) (dmul s_omega (H_omega ! (j + 1))))"
      from refine_estimate_total [of minimize refine "fstate st" ?g, OF tot]
      obtain q s1 ws where "refine_estimate minimize refine (fstate st) ?g = Inr (q, s1, ws)"
        by blast
      with Some p 1 i j la lw show ?thesis
        by (cases q) (simp add: plot_body_def getitem_def Let_def)
    qed
  qed
qed

lemma bind_eq_Inr: "bind m f = Inr v \<longleftrightarrow> (\<exists>x. m = Inr x \<and> f x = Inr v)"
  by (cases m) simp_all

lemma describing_function_shape:
  assumes "describing_function F (Array a) n zero_check try_method = Inr (df, s)"
  shows "length (atleast_1d df) = length a"
proof (cases "if try_method then df_method F else None")
  case None
  with assms show ?thesis
    unfolding describing_function_def
    by (auto simp: Let_def bind_eq_Inr split: if_splits)
next
  case (Some m)
  with assms show ?thesis
    unfolding describing_function_def
    by (auto simp: bind_eq_Inr split: if_splits)
qed

lemma describing_function_plot_outcome:
  assumes df: "describing_function F (Array a) 100 True True = Inr (df, s1)"
    and len: "length (neg_recip (atleast_1d df)) = length (atleast_1d df)"
    and lh: "length H_real = length H_imag" and lw: "length H_real \<le> length H_omega"
    and tot: "\<And>s g. \<exists>res s2. minimize s g = Inr (res, s2)"
  shows "(\<exists>st. describing_function_plot H F a (H_real, H_imag, H_omega) neg_recip minimize
                 refine label = Inr st)
         \<or> describing_function_plot H F a (H_real, H_imag, H_omega) neg_recip minimize
                 refine label = Inl AssertionError"
proof -
  let ?N = "neg_recip (atleast_1d df)"
  let ?Hv = "map2 (\<lambda>re im. nadd (NpFloat re) (nmul (NpComplex (Fin 0) (Fin 1)) (NpFloat im)))
               H_real H_imag"
  let ?st0 = "\<lparr>fstate = s1, intersections = [], warnings = [], texts = []\<rparr>"
  let ?inner = "\<lambda>st i. for_loop (plot_body H minimize refine label (map Fin a) ?N ?Hv H_omega i) st
                  [0..<length ?Hv - 1]"
  have la: "length (map Fin a) = length ?N" using describing_function_shape [OF df] len by simp
  have lv: "length ?Hv \<le> length H_omega" using lh lw by simp
  have inner: "(\<exists>st1. ?inner st i = Inr st1) \<or> ?inner st i = Inl AssertionError"
    if "i \<in> set [0..<length ?N - 1]" for st i
  proof (rule for_loop_outcome)
    fix st2 j
    assume "j \<in> set [0..<length ?Hv - 1]"
    then have j: "j + 1 < length ?Hv" by auto
    from that have i: "i + 1 < length ?N" by auto
    show "(\<exists>st1. plot_body H minimize refine label (map Fin a) ?N ?Hv H_omega i st2 j = Inr st1)
          \<or> plot_body H minimize refine label (map Fin a) ?N ?Hv H_omega i st2 j = Inl AssertionError"
      by (rule plot_body_outcome [OF i j la lv tot])
  qed
  have "(\<exists>st. for_loop ?inner ?st0 [0..<length ?N - 1] = Inr st)
        \<or> for_loop ?inner ?st0 [0..<length ?N - 1] = Inl AssertionError"
    by (rule for_loop_outcome) (rule inner)
  then show ?thesis
    using df by (simp add: describing_function_plot_def Let_def)
qed

text \<open>
  An entry of the describing-function curve that is not a number is carried through
  the body of the loop: the pair \<open>(nan, nan)\<close> is appended to the intersections.
\<close>

lemma nan_entry_carried_on:
  "plot_body (\<lambda>z. z) (\<lambda>s g. Inr (\<lparr>res_success = False, res_x = g\<rparr>, s)) False []
     [Fin 1, Fin 2] [NpComplex NaN NaN, NpComplex (Fin 0) (Fin 1)]
     [NpComplex (Fin (- 1)) (Fin 0), NpComplex (Fin 3) (Fin 0)] [Fin 10, Fin 20] 0
     \<lparr>fstate = 0 :: nat, intersections = [], warnings = [], texts = []\<rparr> 0 =
   Inr \<lparr>fstate = 0, intersections = [(NaN, NaN)], warnings = [], texts = []\<rparr>"
  by (simp add: plot_body_def getitem_def nan_end_point refine_estimate_def dsub_NaN)

subsection \<open>The estimator at negative and at zero amplitude\<close>

text \<open>
  Claim C1 says that the estimator with its default options fails with a validation
  error at every negative amplitude, for every type of nonlinearity. The numeric path
  does so (\<open>generic_negative_amplitude\<close> above). The built-in nonlinearities have a
  \<open>describing_function\<close> method, so with \<open>try_method=True\<close> the check
  \<open>a < 0\<close> is never reached: at amplitude \<open>-1\<close> the saturation with \<open>ub = 1\<close>
  returns \<open>1.0\<close>, the relay with \<open>b = 1\<close>, \<open>c = 0.5\<close> returns not-a-number and
  the backlash with \<open>b = 2\<close> returns \<open>0\<close>. Nothing is raised.
\<close>

theorem negative_amplitude_builtin_returns:
  "describing_function (saturation_fcn (fst (saturation_init 1 None))) (Scalar (- 1)) 100 True True =
     Inr (Scalar (PyFloat 1), fst (saturation_init 1 None)) \<and>
   describing_function (relay_fcn (relay_init 1 (1 / 2))) (Scalar (- 1)) 100 True True =
     Inr (Scalar PyNaN, relay_init 1 (1 / 2)) \<and>
   describing_function (backlash_fcn (backlash_init 2)) (Scalar (- 1)) 100 True True =
     Inr (Scalar (PyInt 0), backlash_init 2)"
  by (simp add: describing_function_method saturation_fcn_def relay_fcn_def backlash_fcn_def
      saturation_init_def relay_init_def backlash_init_def
      saturation_describing_function_def relay_describing_function_def
      backlash_describing_function_def)

text \<open>
  Claim C2, as the code has it. At amplitude \<open>0\<close> with \<open>zero_check=True\<close>: a
  nonlinearity that is evaluated numerically (it has no \<open>describing_function\<close>
  method, or \<open>try_method\<close> is off) is run through the settling cycle of \<open>n\<close> zero
  inputs and then evaluated at zero; the estimator fails with the validation error
  \<open>function must evaluate to zero at zero\<close> when that value is non-zero and returns
  exactly \<open>1.0\<close> when it is zero. With the default options the saturation with
  \<open>lb \<le> 0 \<le> ub\<close>, which is zero at zero, returns \<open>1.0\<close>, and the backlash with
  \<open>b \<ge> 0\<close> in a state where it is zero at zero returns \<open>0\<close>, the value of its
  closed form. An object with a method whose value at zero input is non-zero is not
  covered here.
\<close>

theorem zero_amplitude_check:
  assumes "df_method F = None \<or> \<not> try_method" and "2 \<le> n"
    and "eval_list (call F) (state F) (replicate n 0) = Inr (ys, s1)"
    and "call F s1 0 = Inr (y, s2)"
  shows "(y \<noteq> 0 \<longrightarrow>
            describing_function F (Scalar 0) n True try_method = Inl (ValueError zero_msg)) \<and>
         (y = 0 \<longrightarrow>
            describing_function F (Scalar 0) n True try_method = Inr (Scalar (PyFloat 1), s2)) \<and>
         (lb s \<le> 0 \<and> 0 \<le> ub s \<longrightarrow>
            saturation_call s 0 = 0 \<and>
            describing_function (saturation_fcn s) (Scalar 0) n True True =
              Inr (Scalar (PyFloat 1), s)) \<and>
         (backlash_b k \<ge> 0 \<and> call (backlash_fcn k) k 0 = Inr (0, k1) \<longrightarrow>
            describing_function (backlash_fcn k) (Scalar 0) n True True =
              Inr (Scalar (PyInt 0), k))"
proof -
  have zeros: "map (\<lambda>t. 0 * t) (map sin (linspace 0 (2 * pi) n)) = replicate n (0 :: real)"
    by (simp add: map_replicate_const length_linspace)
  note unfolded = describing_function_numeric [OF assms(1,2), of 0 True, unfolded zeros]
  have num: "describing_function F (Scalar 0) n True try_method =
      (if y \<noteq> 0 then Inl (ValueError zero_msg) else Inr (Scalar (PyFloat 1), s2))"
    unfolding unfolded using assms(3,4) by simp
  have sat: "saturation_call s 0 = 0 \<and>
            describing_function (saturation_fcn s) (Scalar 0) n True True =
              Inr (Scalar (PyFloat 1), s)" if "lb s \<le> 0 \<and> 0 \<le> ub s"
    using that by (simp add: describing_function_method saturation_fcn_def
        saturation_describing_function_def saturation_call_def)
  have bl: "describing_function (backlash_fcn k) (Scalar 0) n True True =
              Inr (Scalar (PyInt 0), k)" if "backlash_b k \<ge> 0"
    using that by (simp add: describing_function_method backlash_fcn_def
        backlash_describing_function_def)
  show ?thesis using num sat bl by simp
qed

theorem zero_amplitude_check_witness:
  "2 \<le> (100 :: nat) \<and>
   describing_function (generic_fcn (0 :: nat) (\<lambda>s x. Inr (x + 1 / 2, s))) (Scalar 0) 100 True True =
     Inl (ValueError zero_msg) \<and>
   describing_function (generic_fcn (0 :: nat) (\<lambda>s x. Inr (2 * x, s))) (Scalar 0) 100 True True =
     Inr (Scalar (PyFloat 1), 0) \<and>
   saturation_call \<lparr>lb = - 1, ub = 1\<rparr> 0 = 0 \<and>
   describing_function (saturation_fcn \<lparr>lb = - 1, ub = 1\<rparr>) (Scalar 0) 100 True True =
     Inr (Scalar (PyFloat 1), \<lparr>lb = - 1, ub = 1\<rparr>) \<and>
   backlash_b (backlash_init 2) \<ge> 0 \<and>
   call (backlash_fcn (backlash_init 2)) (backlash_init 2) 0 = Inr (0, backlash_init 2) \<and>
   describing_function (backlash_fcn (backlash_init 2)) (Scalar 0) 100 True True =
     Inr (Scalar (PyInt 0), backlash_init 2)"
proof -
  let ?off = "generic_fcn (0 :: nat) (\<lambda>s x. Inr (x + 1 / 2, s))"
  let ?lin = "generic_fcn (0 :: nat) (\<lambda>s x. Inr (2 * x, s))"
  have m: "df_method ?off = None \<or> \<not> True" "df_method ?lin = None \<or> \<not> True"
    by (simp_all add: generic_fcn_def)
  have n: "2 \<le> (100 :: nat)" by simp
  have so: "eval_list (call ?off) (state ?off) (replicate 100 0) = Inr (replicate 100 (1 / 2), 0)"
    by (simp add: generic_fcn_def eval_list_stateless)
  have sl: "eval_list (call ?lin) (state ?lin) (replicate 100 0) = Inr (replicate 100 0, 0)"
    by (simp add: generic_fcn_def eval_list_stateless)
  have co: "call ?off 0 0 = Inr (1 / 2, 0)" by (simp add: generic_fcn_def)
  have cl: "call ?lin 0 0 = Inr (0, 0)" by (simp add: generic_fcn_def)
  have bb: "backlash_b (backlash_init 2) \<ge> 0" by (simp add: backlash_init_def)
  note offset = zero_amplitude_check [OF m(1) n so co, THEN conjunct1, THEN mp]
  note linear = zero_amplitude_check [OF m(2) n sl cl, THEN conjunct2, THEN conjunct1, THEN mp]
  note sat = zero_amplitude_check [OF m(2) n sl cl, of "\<lparr>lb = - 1, ub = 1\<rparr>",
      THEN conjunct2, THEN conjunct2, THEN conjunct1, THEN mp]
  note bl = zero_amplitude_check [OF m(2) n sl cl, of _ "backlash_init 2" "backlash_init 2",
      THEN conjunct2, THEN conjunct2, THEN conjunct2, THEN mp,
      OF conjI [OF bb backlash_rest_example]]
  have "describing_function ?off (Scalar 0) 100 True True = Inl (ValueError zero_msg)"
    by (rule offset) simp
  moreover have "describing_function ?lin (Scalar 0) 100 True True = Inr (Scalar (PyFloat 1), 0)"
    by (rule linear) simp
  moreover have "saturation_call \<lparr>lb = - 1, ub = 1\<rparr> 0 = 0 \<and>
     describing_function (saturation_fcn \<lparr>lb = - 1, ub = 1\<rparr>) (Scalar 0) 100 True True =
     Inr (Scalar (PyFloat 1), \<lparr>lb = - 1, ub = 1\<rparr>)"
    by (rule sat) simp
  ultimately show ?thesis using bl bb backlash_rest_example n by blast
qed

text \<open>
  Claim C2 as stated fails with the default options: the backlash with \<open>b = 2\<close> is
  exactly zero at zero input and the estimator returns \<open>0\<close> at amplitude \<open>0\<close>, not
  \<open>1.0\<close>; the relay with \<open>b = 1\<close>, \<open>c = 0.5\<close> is \<open>-1\<close> at zero input and the
  estimator returns not-a-number, not a validation error.
\<close>

theorem zero_amplitude_builtin_counterexample:
  "call (backlash_fcn (backlash_init 2)) (backlash_init 2) 0 = Inr (0, backlash_init 2) \<and>
   describing_function (backlash_fcn (backlash_init 2)) (Scalar 0) 100 True True =
     Inr (Scalar (PyInt 0), backlash_init 2) \<and>
   PyInt 0 \<noteq> PyFloat 1 \<and>
   call (relay_fcn (relay_init 1 (1 / 2))) (relay_init 1 (1 / 2)) 0 =
     Inr (- 1, relay_init 1 (1 / 2)) \<and>
   describing_function (relay_fcn (relay_init 1 (1 / 2))) (Scalar 0) 100 True True =
     Inr (Scalar PyNaN, relay_init 1 (1 / 2))"
proof -
  have "describing_function (backlash_fcn (backlash_init 2)) (Scalar 0) 100 True True =
     Inr (Scalar (PyInt 0), backlash_init 2)"
    by (simp add: describing_function_method backlash_fcn_def backlash_init_def
        backlash_describing_function_def)
  moreover have "call (relay_fcn (relay_init 1 (1 / 2))) (relay_init 1 (1 / 2)) 0 =
     Inr (- 1, relay_init 1 (1 / 2))"
    by (simp add: relay_fcn_def relay_init_def relay_call_def)
  moreover have "describing_function (relay_fcn (relay_init 1 (1 / 2))) (Scalar 0) 100 True True =
     Inr (Scalar PyNaN, relay_init 1 (1 / 2))"
    by (simp add: describing_function_method relay_fcn_def relay_init_def
        relay_describing_function_def)
  ultimately show ?thesis using backlash_rest_example by simp
qed

subsection \<open>Construction of a saturation with asymmetric bounds\<close>

text \<open>
  Claim C3, as the code has it. Constructing a saturation with asymmetric bounds
  (\<open>lb > 0\<close>, or \<open>ub < 0\<close>, or \<open>lb + ub \<noteq> 0\<close>) does not fail and emits exactly the
  warning \<open>asymmetric saturation; ignoring non-zero bias term\<close>; the object stores
  the two bounds exactly as they were supplied. Nothing is symmetrized.
\<close>

theorem saturation_init_keeps_bounds:
  "l > 0 \<or> u < 0 \<or> l + u \<noteq> 0 \<Longrightarrow>
     saturation_init u (Some l) = (\<lparr>lb = l, ub = u\<rparr>, [asymmetric_msg])"
  by (simp add: saturation_init_def)

theorem saturation_init_keeps_bounds_witness:
  "(- 1 :: real) + 2 \<noteq> 0 \<and>
   saturation_init 2 (Some (- 1)) = (\<lparr>lb = - 1, ub = 2\<rparr>, [asymmetric_msg])"
  using saturation_init_keeps_bounds [of "- 1" 2] by simp

text \<open>
  Claim C3 as stated fails: \<open>saturation_nonlinearity(ub=2, lb=-1)\<close> warns and keeps
  \<open>lb = -1\<close>, \<open>ub = 2\<close>, which are not symmetric about zero.
\<close>

theorem saturation_init_symmetrized_counterexample:
  "snd (saturation_init 2 (Some (- 1))) = [asymmetric_msg] \<and>
   lb (fst (saturation_init 2 (Some (- 1)))) = - 1 \<and>
   ub (fst (saturation_init 2 (Some (- 1)))) = 2 \<and>
   lb (fst (saturation_init 2 (Some (- 1)))) + ub (fst (saturation_init 2 (Some (- 1)))) \<noteq> 0"
  by (simp add: saturation_init_def)

subsection \<open>Closed-form describing functions\<close>

text \<open>
  Claim C4. For a relay with hysteresis with \<open>b > 0\<close> and \<open>c > 0\<close>, the closed form
  returns not-a-number for every amplitude \<open>a < c\<close>; for every \<open>a \<ge> c\<close> it returns
  the complex number with real part \<open>4 b sqrt(1 - (c/a)^2) / (a pi)\<close> and imaginary
  part \<open>-4 b c / (pi a^2)\<close>, and the imaginary part is strictly negative.
\<close>

theorem relay_describing_function_closed_form:
  assumes "relay_b r > 0" and "relay_c r > 0"
  shows "(a < relay_c r \<longrightarrow> relay_describing_function r a = Inr PyNaN) \<and>
         (a \<ge> relay_c r \<longrightarrow>
            relay_describing_function r a =
              Inr (PyComplex (Complex (4 * relay_b r * sqrt (1 - (relay_c r / a)\<^sup>2) / (a * pi))
                                      (- 4 * relay_b r * relay_c r / (pi * a\<^sup>2)))) \<and>
            - 4 * relay_b r * relay_c r / (pi * a\<^sup>2) < 0)"
proof (intro conjI impI)
  assume "a < relay_c r"
  then show "relay_describing_function r a = Inr PyNaN"
    by (simp add: relay_describing_function_def)
next
  assume ge: "a \<ge> relay_c r"
  with assms have pos: "a > 0" by linarith
  have "\<bar>relay_c r / a\<bar> \<le> 1" using ge pos assms by simp
  then have sq: "(relay_c r / a)\<^sup>2 \<le> 1" by (simp add: abs_square_le_1)
  have nz: "a \<noteq> 0" "a * pi \<noteq> 0" "pi * a\<^sup>2 \<noteq> 0" using pos by simp_all
  show "relay_describing_function r a =
              Inr (PyComplex (Complex (4 * relay_b r * sqrt (1 - (relay_c r / a)\<^sup>2) / (a * pi))
                                      (- 4 * relay_b r * relay_c r / (pi * a\<^sup>2))))"
    using ge sq nz
    by (simp add: relay_describing_function_def div_py_nonzero sqrt_py_nonneg complex_eq_iff)
next
  assume ge: "a \<ge> relay_c r"
  with assms have pos: "a > 0" by linarith
  have "0 < 4 * relay_b r * relay_c r / (pi * a\<^sup>2)"
    using assms pos by simp
  then show "- 4 * relay_b r * relay_c r / (pi * a\<^sup>2) < 0" by simp
qed

theorem relay_describing_function_closed_form_witness:
  "relay_b (relay_init 1 (1 / 2)) > 0 \<and> relay_c (relay_init 1 (1 / 2)) > 0 \<and>
   relay_describing_function (relay_init 1 (1 / 2)) (3 / 10) = Inr PyNaN \<and>
   relay_describing_function (relay_init 1 (1 / 2)) 1 =
     Inr (PyComplex (Complex (4 * sqrt (1 - (1 / 2)\<^sup>2) / pi) (- 2 / pi))) \<and>
   - 2 / pi < (0 :: real)"
  using relay_describing_function_closed_form [of "relay_init 1 (1 / 2)" "3 / 10"]
        relay_describing_function_closed_form [of "relay_init 1 (1 / 2)" 1]
  by (simp add: relay_init_def)

text \<open>
  Claim C5. For a backlash with \<open>b > 0\<close>, the closed form returns exactly \<open>0\<close> for
  every amplitude \<open>A \<le> b/2\<close>; for every \<open>A > b/2\<close> it returns the complex number
  with real part \<open>(1 + f(1 - b/A)) / 2\<close> and imaginary part
  \<open>-(2b/A - (b/A)^2) / pi\<close>, where \<open>f\<close> is the sector function of the specification,
  which is what \<open>_f\<close> computes at every argument.
\<close>

theorem backlash_describing_function_closed_form:
  assumes "backlash_b k > 0"
  shows "(A \<le> backlash_b k / 2 \<longrightarrow> backlash_describing_function k A = Inr (PyInt 0)) \<and>
         (A > backlash_b k / 2 \<longrightarrow>
            backlash_describing_function k A =
              Inr (PyComplex (Complex ((1 + f_spec (1 - backlash_b k / A)) / 2)
                                      (- (2 * backlash_b k / A - (backlash_b k / A)\<^sup>2) / pi)))) \<and>
         f_aux z = Inr (f_spec z)"
proof (intro conjI impI)
  assume "A \<le> backlash_b k / 2"
  then show "backlash_describing_function k A = Inr (PyInt 0)"
    by (simp add: backlash_describing_function_def)
next
  assume gt: "A > backlash_b k / 2"
  with assms have nz: "A \<noteq> 0" by auto
  show "backlash_describing_function k A =
              Inr (PyComplex (Complex ((1 + f_spec (1 - backlash_b k / A)) / 2)
                                      (- (2 * backlash_b k / A - (backlash_b k / A)\<^sup>2) / pi)))"
    using gt nz
    by (simp add: backlash_describing_function_def div_py_nonzero f_aux_spec complex_eq_iff)
next
  show "f_aux z = Inr (f_spec z)" by (rule f_aux_spec)
qed

theorem backlash_describing_function_closed_form_witness:
  "backlash_b (backlash_init 2) > 0 \<and>
   backlash_describing_function (backlash_init 2) (1 / 2) = Inr (PyInt 0) \<and>
   backlash_describing_function (backlash_init 2) 4 =
     Inr (PyComplex (Complex ((1 + f_spec (1 / 2)) / 2) (- (3 / 4) / pi))) \<and>
   f_aux 2 = Inr (f_spec 2)"
  using backlash_describing_function_closed_form [of "backlash_init 2" "1 / 2" 2]
        backlash_describing_function_closed_form [of "backlash_init 2" 4 2]
  by (simp add: backlash_init_def power2_eq_square)

text \<open>
  Claim C6. For a symmetric saturation with bound \<open>ub > 0\<close> (\<open>lb = -ub\<close>), the
  describing function is exactly the float \<open>1\<close> for every amplitude
  \<open>0 \<le> A \<le> ub\<close>, and for every \<open>A > ub\<close> it is a float (a real number, no
  imaginary part), namely \<open>(sin(2 alpha) + 2 alpha) / pi\<close> with \<open>alpha = asin(ub/A)\<close>.
  The estimator with \<open>try_method=True\<close> returns that value of the method.
\<close>

theorem saturation_describing_function_real:
  assumes "ub s > 0" and "lb s = - ub s"
  shows "(0 \<le> A \<and> A \<le> ub s \<longrightarrow> saturation_describing_function s A = Inr (PyFloat 1)) \<and>
         (A > ub s \<longrightarrow> saturation_describing_function s A =
            Inr (PyFloat ((sin (2 * arcsin (ub s / A)) + 2 * arcsin (ub s / A)) / pi))) \<and>
         describing_function (saturation_fcn s) (Scalar A) n zero_check True =
           bind (saturation_describing_function s A) (\<lambda>d. Inr (Scalar d, s))"
proof (intro conjI impI)
  assume "0 \<le> A \<and> A \<le> ub s"
  with assms show "saturation_describing_function s A = Inr (PyFloat 1)"
    by (simp add: saturation_describing_function_def)
next
  assume big: "A > ub s"
  with assms have pos: "A > 0" by linarith
  have q: "\<bar>ub s / A\<bar> \<le> 1" using big pos assms by simp
  have nz: "A \<noteq> 0" using pos by simp
  show "saturation_describing_function s A =
            Inr (PyFloat ((sin (2 * arcsin (ub s / A)) + 2 * arcsin (ub s / A)) / pi))"
    using big assms q nz
    by (simp add: saturation_describing_function_def div_py_nonzero asin_in_domain)
next
  show "describing_function (saturation_fcn s) (Scalar A) n zero_check True =
           bind (saturation_describing_function s A) (\<lambda>d. Inr (Scalar d, s))"
    by (simp add: describing_function_method saturation_fcn_def)
qed

theorem saturation_describing_function_real_witness:
  "ub (fst (saturation_init 1 None)) > 0 \<and>
   lb (fst (saturation_init 1 None)) = - ub (fst (saturation_init 1 None)) \<and>
   saturation_describing_function (fst (saturation_init 1 None)) (1 / 2) = Inr (PyFloat 1) \<and>
   saturation_describing_function (fst (saturation_init 1 None)) 2 =
     Inr (PyFloat ((sin (2 * arcsin (1 / 2)) + 2 * arcsin (1 / 2)) / pi)) \<and>
   describing_function (saturation_fcn (fst (saturation_init 1 None))) (Scalar (1 / 2)) 100 True True =
     Inr (Scalar (PyFloat 1), fst (saturation_init 1 None))"
  using saturation_describing_function_real [of "fst (saturation_init 1 None)" "1 / 2" 100 True]
        saturation_describing_function_real [of "fst (saturation_init 1 None)" 2 100 True]
  by (simp add: saturation_init_def)

subsection \<open>Segment intersection\<close>




subsection \<open>Refinement of a coarse estimate\<close>



subsection \<open>State invariants of the stateful nonlinearities\<close>

text \<open>
  Claim C9. For every relay-with-hysteresis instance \<open>relay(b, c)\<close> and every
  sequence of evaluation calls \<open>xs\<close> followed by a call at \<open>x\<close>: no call fails, the
  branch state after the call is \<open>-1\<close> or \<open>+1\<close>, and the output of the call is
  \<open>b\<close> times the branch state as that call left it; so the output is \<open>+b\<close> or
  \<open>-b\<close>. (Each call of a sequence is the last call of a prefix of it.)
\<close>

theorem relay_branch_invariant:
  "\<exists>ys r1 y r2.
     eval_list relay_call (relay_init b0 c0) xs = Inr (ys, r1) \<and>
     relay_call r1 x = Inr (y, r2) \<and>
     (branch r2 = - 1 \<or> branch r2 = 1) \<and>
     y = b0 * real_of_int (branch r2) \<and>
     (y = b0 \<or> y = - b0)"
proof -
  have init: "branch (relay_init b0 c0) = - 1 \<or> branch (relay_init b0 c0) = 1"
    by (simp add: relay_init_def)
  from relay_eval_list [OF init, of xs] obtain ys r1 where
    run: "eval_list relay_call (relay_init b0 c0) xs = Inr (ys, r1)"
    and br: "branch r1 = - 1 \<or> branch r1 = 1"
    and par: "relay_b r1 = relay_b (relay_init b0 c0)" by blast
  from relay_call_branch [OF br, of x] obtain y r2 where
    step: "relay_call r1 x = Inr (y, r2)" and br2: "branch r2 = - 1 \<or> branch r2 = 1"
    and out: "y = relay_b r1 * real_of_int (branch r2)" by blast
  have b: "relay_b r1 = b0" using par by (simp add: relay_init_def)
  have out': "y = b0 * real_of_int (branch r2)" using out b by simp
  have "y = b0 \<or> y = - b0" using out' br2 by auto
  with run step br2 out' show ?thesis by blast
qed

theorem relay_branch_invariant_witness:
  "\<exists>ys r1 y r2.
     eval_list relay_call (relay_init 1 (1 / 2)) [1, 0, - 1] = Inr (ys, r1) \<and>
     relay_call r1 0 = Inr (y, r2) \<and>
     (branch r2 = - 1 \<or> branch r2 = 1) \<and>
     y = 1 * real_of_int (branch r2) \<and>
     (y = 1 \<or> y = - 1)"
  using relay_branch_invariant [of 1 "1 / 2" "[1, 0, - 1]" 0] by simp

text \<open>
  Claim C10, as the code has it. For every backlash instance with \<open>b \<ge> 0\<close>, in any
  state: a scalar call at \<open>x\<close> returns the updated center. The center is either
  left as it was, the computed difference \<open>x - center\<close> being within \<open>b/2\<close>, or it
  is the double nearest to \<open>x - b/2\<close>, or the double nearest to \<open>x + b/2\<close>. Hence
  \<open>|x - center| \<le> b/2\<close> holds after the call up to the rounding of one operation
  (half a unit in the last place of the value rounded); it need not hold exactly. A
  call on a one-dimensional array returns an array of the same length whose \<open>i\<close>-th
  entry is the center after the samples \<open>0..i\<close> have been processed in order.
\<close>

theorem backlash_center_rounded:
  assumes "backlash_b k \<ge> 0"
  shows "backlash_call k (Dim0 x) = Inr (Dim0 (center (backlash_step k x)), backlash_step k x) \<and>
         ((center (backlash_step k x) = center k \<and>
             \<bar>fl (x - center k)\<bar> \<le> fl (backlash_b k / 2)) \<or>
          center (backlash_step k x) = fl (x - fl (backlash_b k / 2)) \<or>
          center (backlash_step k x) = fl (x + fl (backlash_b k / 2))) \<and>
         \<bar>x - center (backlash_step k x)\<bar> \<le>
           fl (backlash_b k / 2) +
           max (half_ulp (x - center k))
             (max (half_ulp (x - fl (backlash_b k / 2))) (half_ulp (x + fl (backlash_b k / 2)))) \<and>
         (\<exists>ys. backlash_call k (Dim1 xs) = Inr (Dim1 ys, foldl backlash_step k xs) \<and>
               length ys = length xs \<and>
               (\<forall>i < length xs. ys ! i = center (foldl backlash_step k (take (Suc i) xs))))"
proof (intro conjI)
  show "backlash_call k (Dim0 x) = Inr (Dim0 (center (backlash_step k x)), backlash_step k x)"
    by (simp add: Let_def)
  show "(center (backlash_step k x) = center k \<and>
             \<bar>fl (x - center k)\<bar> \<le> fl (backlash_b k / 2)) \<or>
          center (backlash_step k x) = fl (x - fl (backlash_b k / 2)) \<or>
          center (backlash_step k x) = fl (x + fl (backlash_b k / 2))"
    by (rule backlash_step_cases)
  show "\<bar>x - center (backlash_step k x)\<bar> \<le>
           fl (backlash_b k / 2) +
           max (half_ulp (x - center k))
             (max (half_ulp (x - fl (backlash_b k / 2))) (half_ulp (x + fl (backlash_b k / 2))))"
    by (rule backlash_step_bound [OF assms])
  obtain ys k1 where loop: "backlash_loop k xs = (ys, k1)" by (cases "backlash_loop k xs")
  have len: "length ys = length xs" using backlash_loop_length [of k xs] loop by simp
  have st: "k1 = foldl backlash_step k xs" using backlash_loop_state [of k xs] loop by simp
  have "backlash_call k (Dim1 xs) = Inr (Dim1 ys, foldl backlash_step k xs)"
    using loop len st by simp
  moreover have "\<forall>i < length xs. ys ! i = center (foldl backlash_step k (take (Suc i) xs))"
    using backlash_loop_nth [of _ xs k] loop by simp
  ultimately show "\<exists>ys. backlash_call k (Dim1 xs) = Inr (Dim1 ys, foldl backlash_step k xs) \<and>
               length ys = length xs \<and>
               (\<forall>i < length xs. ys ! i = center (foldl backlash_step k (take (Suc i) xs)))"
    using len by blast
qed

text \<open>
  A backlash of width \<open>2\<close> driven to \<open>3\<close>, back to \<open>2\<close> and down to \<open>0\<close>.
\<close>

theorem backlash_center_rounded_witness:
  "backlash_b (backlash_init 2) \<ge> 0 \<and>
   backlash_call (backlash_init 2) (Dim0 3) = Inr (Dim0 2, \<lparr>backlash_b = 2, center = 2\<rparr>) \<and>
   center (backlash_step (backlash_init 2) 3) = fl (3 - fl (backlash_b (backlash_init 2) / 2)) \<and>
   \<bar>3 - center (backlash_step (backlash_init 2) 3)\<bar> \<le>
     fl (backlash_b (backlash_init 2) / 2) +
     max (half_ulp (3 - center (backlash_init 2)))
       (max (half_ulp (3 - fl (backlash_b (backlash_init 2) / 2)))
            (half_ulp (3 + fl (backlash_b (backlash_init 2) / 2)))) \<and>
   backlash_call (backlash_init 2) (Dim1 [3, 2, 0]) =
     Inr (Dim1 [2, 2, 1], \<lparr>backlash_b = 2, center = 1\<rparr>)"
proof -
  have b: "backlash_b (backlash_init 2) \<ge> 0" by (simp add: backlash_init_def)
  note inst = backlash_center_rounded [OF b, of 3 "[3, 2, 0]"]
  have scalar: "backlash_call (backlash_init 2) (Dim0 3) =
      Inr (Dim0 2, \<lparr>backlash_b = 2, center = 2\<rparr>)"
    using inst [THEN conjunct1] unfolding backlash_two_steps(1) by simp
  have moved: "center (backlash_step (backlash_init 2) 3) =
      fl (3 - fl (backlash_b (backlash_init 2) / 2))"
    unfolding backlash_two_steps(1) by (simp add: backlash_init_def fl_one fl_numeral)
  note bound = inst [THEN conjunct2, THEN conjunct2, THEN conjunct1]
  have array: "backlash_call (backlash_init 2) (Dim1 [3, 2, 0]) =
      Inr (Dim1 [2, 2, 1], \<lparr>backlash_b = 2, center = 1\<rparr>)"
    unfolding backlash_call.simps backlash_loop_Cons backlash_two_steps
    by (simp add: Let_def)
  from b scalar moved bound array show ?thesis by blast
qed

text \<open>
  Claim C10 as stated fails. With \<open>b = 0.1\<close> (the double \<open>3602879701896397 / 2^55\<close>)
  and the sample \<open>-2.0\<close> the center becomes \<open>-8782019273372467 / 2^52\<close>, at a
  distance of \<open>0.050000000000000044\<close> from the sample, more than \<open>b/2\<close>. And a
  two-dimensional array with a row of two entries raises \<open>ValueError\<close>: no array of
  the same shape is returned.
\<close>

theorem backlash_center_bound_counterexample:
  "backlash_b (backlash_init (3602879701896397 / 2 ^ 55)) \<ge> 0 \<and>
   backlash_call (backlash_init (3602879701896397 / 2 ^ 55)) (Dim0 (- 2)) =
     Inr (Dim0 (- 8782019273372467 / 2 ^ 52),
          \<lparr>backlash_b = 3602879701896397 / 2 ^ 55, center = - 8782019273372467 / 2 ^ 52\<rparr>) \<and>
   \<bar>- 2 - (- 8782019273372467 / 2 ^ 52)\<bar> > (3602879701896397 / 2 ^ 55) / (2 :: real) \<and>
   backlash_call (backlash_init 1) (Dim2 [(1, 2, [])]) = Inl (ValueError ambiguous_msg)"
proof -
  have "backlash_call (backlash_init (3602879701896397 / 2 ^ 55)) (Dim0 (- 2)) =
     Inr (Dim0 (- 8782019273372467 / 2 ^ 52),
          \<lparr>backlash_b = 3602879701896397 / 2 ^ 55, center = - 8782019273372467 / 2 ^ 52\<rparr>)"
    unfolding backlash_call.simps backlash_loop_Cons backlash_tenth_step
    by (simp add: Let_def)
  moreover have "\<bar>- 2 - (- 8782019273372467 / 2 ^ 52)\<bar> > (3602879701896397 / 2 ^ 55) / (2 :: real)"
    by simp
  moreover have "backlash_b (backlash_init (3602879701896397 / 2 ^ 55)) \<ge> 0"
    by (simp add: backlash_init_def)
  ultimately show ?thesis by simp
qed

end
